theory Spec2Isabelle
  imports Complex_Main "HOL-Library.Word"
begin

section \<open>JavaScript strings\<close>

text \<open>
  A JavaScript string is a sequence of 16-bit code units. The texts of the program are
  Portuguese: their letters outside ASCII (for example U+00E3, a with tilde) are single
  code units, written here by their number. \<open>ascii\<close> embeds an ASCII literal.
  Where the source is quoted, its accented letters are printed without the accent.
\<close>

type_synonym jsstring = "16 word list"

definition ascii :: "string \<Rightarrow> jsstring" where
  "ascii s = map of_char s"

section \<open>Code Translator\<close>

text \<open>
  \<^verbatim>\<open>
  function getWeatherDescription(code) {
      const map = { 0: 'Ceu limpo', 1: 'Predominantemente limpo', ..., 99: '...' };
      return map[code] || 'Condicao desconhecida';
  }
  \<close>
  The object literal is a dictionary. An integer-valued number reads the member whose key
  is its decimal spelling, so the dictionary is keyed by the integer itself. \<open>a || b\<close>
  yields \<open>b\<close> when \<open>a\<close> is undefined (no such member) or the empty string.
\<close>

definition unknown_condition :: jsstring where
  "unknown_condition = ascii ''Condi'' @ [0xE7, 0xE3] @ ascii ''o desconhecida''"

definition weather_map :: "int \<rightharpoonup> jsstring" where
  "weather_map =
     [0 \<mapsto> ascii ''C'' @ [0xE9] @ ascii ''u limpo'',
      1 \<mapsto> ascii ''Predominantemente limpo'',
      2 \<mapsto> ascii ''Parcialmente nublado'',
      3 \<mapsto> ascii ''Nublado'',
      45 \<mapsto> ascii ''Neblina'',
      48 \<mapsto> ascii ''Neblina com geada'',
      51 \<mapsto> ascii ''Garoa leve'',
      53 \<mapsto> ascii ''Garoa moderada'',
      55 \<mapsto> ascii ''Garoa intensa'',
      61 \<mapsto> ascii ''Chuva leve'',
      63 \<mapsto> ascii ''Chuva moderada'',
      65 \<mapsto> ascii ''Chuva forte'',
      71 \<mapsto> ascii ''Neve leve'',
      73 \<mapsto> ascii ''Neve moderada'',
      75 \<mapsto> ascii ''Neve forte'',
      77 \<mapsto> ascii ''Granizo'',
      80 \<mapsto> ascii ''Pancadas de chuva leves'',
      81 \<mapsto> ascii ''Pancadas de chuva moderadas'',
      82 \<mapsto> ascii ''Pancadas de chuva fortes'',
      85 \<mapsto> ascii ''Pancadas de neve leves'',
      86 \<mapsto> ascii ''Pancadas de neve fortes'',
      95 \<mapsto> ascii ''Tempestade'',
      96 \<mapsto> ascii ''Tempestade com granizo leve'',
      99 \<mapsto> ascii ''Tempestade com granizo forte'']"

definition or_default :: "jsstring option \<Rightarrow> jsstring \<Rightarrow> jsstring" where
  "or_default v d = (case v of None \<Rightarrow> d | Some s \<Rightarrow> if s = [] then d else s)"

definition getWeatherDescription :: "int \<Rightarrow> jsstring" where
  "getWeatherDescription code = or_default (weather_map code) unknown_condition"

text \<open>
  \<^verbatim>\<open>
  function getWeatherIcon(code) {
      if (code === 0) return 'wi-day-sunny';
      if (code === 1) return 'wi-day-sunny';
      if (code === 2) return 'wi-day-cloudy';
      if (code === 3) return 'wi-cloud';
      if (code === 45 || code === 48) return 'wi-fog';
      if ([51,53,55,61,63,65,80,81,82].includes(code)) return 'wi-rain';
      if ([71,73,75,85,86].includes(code)) return 'wi-snow';
      if (code === 77) return 'wi-hail';
      if ([95,96,99].includes(code)) return 'wi-thunderstorm';
      return 'wi-na';
  }
  \<close>
\<close>

definition getWeatherIcon :: "int \<Rightarrow> jsstring" where
  "getWeatherIcon code =
     (if code = 0 then ascii ''wi-day-sunny''
      else if code = 1 then ascii ''wi-day-sunny''
      else if code = 2 then ascii ''wi-day-cloudy''
      else if code = 3 then ascii ''wi-cloud''
      else if code = 45 \<or> code = 48 then ascii ''wi-fog''
      else if List.member [51, 53, 55, 61, 63, 65, 80, 81, 82] code then ascii ''wi-rain''
      else if List.member [71, 73, 75, 85, 86] code then ascii ''wi-snow''
      else if code = 77 then ascii ''wi-hail''
      else if List.member [95, 96, 99] code then ascii ''wi-thunderstorm''
      else ascii ''wi-na'')"

subsection \<open>The reference table of the specification\<close>

text \<open>
  The table of the specification (section 6), one row per known code, in its order. The
  specification names the conditions in English; each row carries the Portuguese text
  that stands for the English label given beside it.
\<close>

definition spec_descriptions :: "(int \<times> jsstring) list" where
  "spec_descriptions =
     [(0, ascii ''C'' @ [0xE9] @ ascii ''u limpo''),      \<comment> \<open>clear sky\<close>
      (1, ascii ''Predominantemente limpo''),             \<comment> \<open>mostly clear\<close>
      (2, ascii ''Parcialmente nublado''),                \<comment> \<open>partly cloudy\<close>
      (3, ascii ''Nublado''),                             \<comment> \<open>overcast\<close>
      (45, ascii ''Neblina''),                            \<comment> \<open>fog\<close>
      (48, ascii ''Neblina com geada''),                  \<comment> \<open>fog (depositing rime)\<close>
      (51, ascii ''Garoa leve''),                         \<comment> \<open>drizzle, light\<close>
      (53, ascii ''Garoa moderada''),                     \<comment> \<open>drizzle, moderate\<close>
      (55, ascii ''Garoa intensa''),                      \<comment> \<open>drizzle, dense\<close>
      (61, ascii ''Chuva leve''),                         \<comment> \<open>rain, light\<close>
      (63, ascii ''Chuva moderada''),                     \<comment> \<open>rain, moderate\<close>
      (65, ascii ''Chuva forte''),                        \<comment> \<open>rain, heavy\<close>
      (71, ascii ''Neve leve''),                          \<comment> \<open>snow, light\<close>
      (73, ascii ''Neve moderada''),                      \<comment> \<open>snow, moderate\<close>
      (75, ascii ''Neve forte''),                         \<comment> \<open>snow, heavy\<close>
      (77, ascii ''Granizo''),                            \<comment> \<open>hail / sleet\<close>
      (80, ascii ''Pancadas de chuva leves''),            \<comment> \<open>rain showers, light\<close>
      (81, ascii ''Pancadas de chuva moderadas''),        \<comment> \<open>rain showers, moderate\<close>
      (82, ascii ''Pancadas de chuva fortes''),           \<comment> \<open>rain showers, heavy\<close>
      (85, ascii ''Pancadas de neve leves''),             \<comment> \<open>snow showers, light\<close>
      (86, ascii ''Pancadas de neve fortes''),            \<comment> \<open>snow showers, heavy\<close>
      (95, ascii ''Tempestade''),                         \<comment> \<open>thunderstorm\<close>
      (96, ascii ''Tempestade com granizo leve''),        \<comment> \<open>thunderstorm with hail, light\<close>
      (99, ascii ''Tempestade com granizo forte'')]"

text \<open>The icon groups of the specification (section 4.4), each with its token.\<close>

definition spec_icon_groups :: "(int list \<times> jsstring) list" where
  "spec_icon_groups =
     [([0, 1], ascii ''wi-day-sunny''),                                   \<comment> \<open>clear sky\<close>
      ([2], ascii ''wi-day-cloudy''),                                     \<comment> \<open>partly cloudy\<close>
      ([3], ascii ''wi-cloud''),                                          \<comment> \<open>overcast\<close>
      ([45, 48], ascii ''wi-fog''),                                       \<comment> \<open>fog\<close>
      ([51, 53, 55, 61, 63, 65, 80, 81, 82], ascii ''wi-rain''),          \<comment> \<open>drizzle / rain\<close>
      ([71, 73, 75, 85, 86], ascii ''wi-snow''),                          \<comment> \<open>snow\<close>
      ([77], ascii ''wi-hail''),                                          \<comment> \<open>hail\<close>
      ([95, 96, 99], ascii ''wi-thunderstorm'')]"                         \<comment> \<open>thunderstorm\<close>

definition spec_description :: "int \<Rightarrow> jsstring" where
  "spec_description code =
     (case map_of spec_descriptions code of
        Some d \<Rightarrow> d
      | None \<Rightarrow> ascii ''Condi'' @ [0xE7, 0xE3] @ ascii ''o desconhecida'')"

definition spec_iconIdentifier :: "int \<Rightarrow> jsstring" where
  "spec_iconIdentifier code =
     (case find (\<lambda>g. List.member (fst g) code) spec_icon_groups of
        Some g \<Rightarrow> snd g
      | None \<Rightarrow> ascii ''wi-na'')"

definition known_codes :: "int list" where
  "known_codes = [0, 1, 2, 3, 45, 48, 51, 53, 55, 61, 63, 65, 71, 73, 75, 77,
                  80, 81, 82, 85, 86, 95, 96, 99]"
section \<open>String operations of the language\<close>

text \<open>
  \<open>String.prototype.trim\<close> removes the white space and line terminators of the
  language from both ends.
\<close>

definition js_whitespace :: "16 word \<Rightarrow> bool" where
  "js_whitespace c \<longleftrightarrow>
     c = 0x09 \<or> c = 0x0A \<or> c = 0x0B \<or> c = 0x0C \<or> c = 0x0D \<or> c = 0x20 \<or> c = 0xA0
     \<or> c = 0x1680 \<or> (0x2000 \<le> c \<and> c \<le> 0x200A) \<or> c = 0x2028 \<or> c = 0x2029
     \<or> c = 0x202F \<or> c = 0x205F \<or> c = 0x3000 \<or> c = 0xFEFF"

definition trim :: "jsstring \<Rightarrow> jsstring" where
  "trim s = rev (dropWhile js_whitespace (rev (dropWhile js_whitespace s)))"

text \<open>
  \<open>toLowerCase\<close>, on the Basic Latin and Latin-1 letters. Outside these two blocks
  the code unit is kept; no code point outside them has a lower-case form that could
  complete the ASCII word the program searches for, so the search below is not affected.
\<close>

definition lower_unit :: "16 word \<Rightarrow> 16 word" where
  "lower_unit c =
     (if (0x41 \<le> c \<and> c \<le> 0x5A) \<or> (0xC0 \<le> c \<and> c \<le> 0xDE \<and> c \<noteq> 0xD7)
      then c + 0x20 else c)"

definition toLowerCase :: "jsstring \<Rightarrow> jsstring" where
  "toLowerCase s = map lower_unit s"

text \<open>\<open>s.includes(t)\<close>: \<open>t\<close> occurs in \<open>s\<close> as a run of adjacent code units.\<close>

fun js_includes :: "jsstring \<Rightarrow> jsstring \<Rightarrow> bool" where
  "js_includes [] t = (t = [])"
| "js_includes (c # s) t = (take (length t) (c # s) = t \<or> js_includes s t)"

text \<open>\<open>s.split(sep)\<close> for a separator of one code unit: never an empty array.\<close>

fun js_split :: "jsstring \<Rightarrow> 16 word \<Rightarrow> jsstring list" where
  "js_split [] sep = [[]]"
| "js_split (c # s) sep =
     (if c = sep then [] # js_split s sep
      else (case js_split s sep of [] \<Rightarrow> [[c]] | p # ps \<Rightarrow> (c # p) # ps))"

text \<open>\<open>a[i]\<close> on an array of strings: undefined (here \<open>None\<close>) out of range.\<close>

definition at_index :: "'a list \<Rightarrow> nat \<Rightarrow> 'a option" where
  "at_index xs i = (if i < length xs then Some (xs ! i) else None)"

text \<open>A template literal prints an undefined value as the word \<open>undefined\<close>.\<close>

definition template_text :: "jsstring option \<Rightarrow> jsstring" where
  "template_text v = (case v of None \<Rightarrow> ascii ''undefined'' | Some s \<Rightarrow> s)"

text \<open>Decimal numerals.\<close>

definition digit :: "nat \<Rightarrow> 16 word" where
  "digit n = of_nat (48 + n mod 10)"

fun digits :: "nat \<Rightarrow> jsstring" where
  "digits n = (if n < 10 then [digit n] else digits (n div 10) @ [digit (n mod 10)])"

definition pad :: "nat \<Rightarrow> jsstring \<Rightarrow> jsstring" where
  "pad k s = replicate (k - length s) 0x30 @ s"

definition int_text :: "int \<Rightarrow> jsstring" where
  "int_text i = (if i < 0 then 0x2D # digits (nat (- i)) else digits (nat i))"

section \<open>Values and errors\<close>

text \<open>
  The values the program handles are those of parsed JSON, and \<open>undefined\<close>, which a
  read of a missing member yields. Numbers are the rationals: every finite double is
  one. An object lists its members; a key that occurs twice is read at its first entry.
\<close>

datatype jsval =
    JUndefined
  | JNull
  | JBool bool
  | JNum rat
  | JStr jsstring
  | JArr "jsval list"
  | JObj "(jsstring \<times> jsval) list"

datatype error_kind = Error | TypeError | URIError | SyntaxError | RangeError

datatype js_error = JsError (kind: error_kind) (message: jsstring)

text \<open>
  The built-in operations whose result the program only passes on are parameters of the
  model: the clock and the time zone of the process, the locale formatting of dates, the
  printing of numbers, and the texts of the errors the engine itself raises.
\<close>

record engine =
  time_now :: int
  local_offset :: int
  daylight_saving :: "int \<Rightarrow> bool \<Rightarrow> int"
  locale_now :: jsstring
  locale_parse :: "jsstring \<Rightarrow> jsstring option"
  number_text :: "rat \<Rightarrow> jsstring"
  round_text :: "jsstring \<Rightarrow> jsstring"
  keyed_description :: "jsstring \<Rightarrow> jsstring"
  type_error_text :: jsstring
  convert_error_text :: jsstring
  uri_error_text :: jsstring
  range_error_text :: jsstring

text \<open>
  \<^item> \<open>time_now\<close>: the time value of \<open>new Date()\<close>, in milliseconds since the epoch (UTC);
  \<^item> \<open>local_offset\<close>: the standard offset of the zone, local time minus UTC, in
    milliseconds;
  \<^item> \<open>daylight_saving t utc\<close>: the adjustment added to the standard offset at \<open>t\<close>,
    where \<open>t\<close> is a time value when \<open>utc\<close> is true and a local time when it is false;
    the offset of the zone at \<open>t\<close> is the sum of the two;
  \<^item> \<open>locale_now\<close>: \<open>new Date().toLocaleString('pt-BR')\<close>;
  \<^item> \<open>locale_parse s\<close>: \<open>None\<close> when \<open>new Date(s)\<close> is an invalid date, otherwise its
    \<open>toLocaleString('pt-BR')\<close>;
  \<^item> \<open>number_text\<close>: the printing of a number;
  \<^item> \<open>round_text s\<close>: the printing of \<open>Math.round(s)\<close> for a string \<open>s\<close>;
  \<^item> \<open>keyed_description s\<close>: the text shown for \<open>map[s] || fallback\<close> in
    getWeatherDescription, for the property key \<open>s\<close> that a string, an array or an object
    converts to (the table and the inherited members decide it);
  \<^item> \<open>type_error_text\<close>, \<open>convert_error_text\<close>, \<open>uri_error_text\<close>,
    \<open>range_error_text\<close>: the messages of the errors the engine raises (a TypeError for
    a member read on \<open>null\<close> or \<open>undefined\<close> and for a call of a missing method, a
    TypeError for an object that cannot be converted to a primitive value, a URIError, a
    RangeError).
\<close>

definition truthy :: "jsval \<Rightarrow> bool" where
  "truthy v =
     (case v of
        JUndefined \<Rightarrow> False
      | JNull \<Rightarrow> False
      | JBool b \<Rightarrow> b
      | JNum x \<Rightarrow> x \<noteq> 0
      | JStr s \<Rightarrow> s \<noteq> []
      | JArr xs \<Rightarrow> True
      | JObj kvs \<Rightarrow> True)"

text \<open>
  \<open>v.key\<close> for the member names this program reads (none is an index, and none is a
  member of a built-in prototype other than \<open>length\<close>), and \<open>v[0]\<close>. On every value but
  \<open>null\<close> and \<open>undefined\<close> the read yields the member, or \<open>undefined\<close> when there is
  none; on \<open>null\<close> and \<open>undefined\<close> it raises a TypeError.
\<close>

definition member_value :: "jsval \<Rightarrow> jsstring \<Rightarrow> jsval" where
  "member_value v key =
     (case v of
        JStr s \<Rightarrow> if key = ascii ''length'' then JNum (of_nat (length s)) else JUndefined
      | JArr xs \<Rightarrow> if key = ascii ''length'' then JNum (of_nat (length xs)) else JUndefined
      | JObj kvs \<Rightarrow> (case map_of kvs key of None \<Rightarrow> JUndefined | Some x \<Rightarrow> x)
      | _ \<Rightarrow> JUndefined)"

definition first_value :: "jsval \<Rightarrow> jsval" where
  "first_value v =
     (case v of
        JStr s \<Rightarrow> (case s of [] \<Rightarrow> JUndefined | c # _ \<Rightarrow> JStr [c])
      | JArr xs \<Rightarrow> (case xs of [] \<Rightarrow> JUndefined | x # _ \<Rightarrow> x)
      | JObj kvs \<Rightarrow> (case map_of kvs (ascii ''0'') of None \<Rightarrow> JUndefined | Some x \<Rightarrow> x)
      | _ \<Rightarrow> JUndefined)"

definition get_member :: "engine \<Rightarrow> jsval \<Rightarrow> jsstring \<Rightarrow> js_error + jsval" where
  "get_member eng v key =
     (if v = JUndefined \<or> v = JNull then Inl (JsError TypeError (type_error_text eng))
      else Inr (member_value v key))"

definition get_first :: "engine \<Rightarrow> jsval \<Rightarrow> js_error + jsval" where
  "get_first eng v =
     (if v = JUndefined \<or> v = JNull then Inl (JsError TypeError (type_error_text eng))
      else Inr (first_value v))"

text \<open>Chaining of steps that may raise: the first error ends the chain.\<close>

definition and_then :: "js_error + 'a \<Rightarrow> ('a \<Rightarrow> js_error + 'b) \<Rightarrow> js_error + 'b" where
  "and_then r f = (case r of Inl e \<Rightarrow> Inl e | Inr x \<Rightarrow> f x)"

fun all_results :: "(js_error + 'a) list \<Rightarrow> js_error + 'a list" where
  "all_results [] = Inr []"
| "all_results (r # rs) =
     (case r of
        Inl e \<Rightarrow> Inl e
      | Inr x \<Rightarrow> (case all_results rs of Inl e \<Rightarrow> Inl e | Inr xs \<Rightarrow> Inr (x # xs)))"

text \<open>
  The conversion of a value to a string, as a template literal, a property key and the
  constructor of \<open>URLSearchParams\<close> do it. An array is joined with commas, its
  \<open>null\<close> and \<open>undefined\<close> elements printing as nothing. An object is converted by its
  \<open>toString\<close> method and then by \<open>valueOf\<close>: a parsed object inherits both, and prints
  as \<open>[object Object]\<close>, unless it has a member of its own named \<open>toString\<close>. Such a
  member is never a function, the inherited \<open>valueOf\<close> returns the object itself, and the
  conversion raises a TypeError. \<open>Math.round\<close> converts its argument to a number by the
  same two methods in the other order, and raises on the same values.
\<close>

fun join :: "jsstring \<Rightarrow> jsstring list \<Rightarrow> jsstring" where
  "join sep [] = []"
| "join sep [s] = s"
| "join sep (s # t # ss) = s @ sep @ join sep (t # ss)"

fun to_text :: "engine \<Rightarrow> jsval \<Rightarrow> js_error + jsstring" where
  "to_text eng JUndefined = Inr (ascii ''undefined'')"
| "to_text eng JNull = Inr (ascii ''null'')"
| "to_text eng (JBool b) = Inr (if b then ascii ''true'' else ascii ''false'')"
| "to_text eng (JNum x) = Inr (number_text eng x)"
| "to_text eng (JStr s) = Inr s"
| "to_text eng (JArr xs) =
     (case all_results
             (map (\<lambda>v. if v = JUndefined \<or> v = JNull then Inr [] else to_text eng v) xs) of
        Inl e \<Rightarrow> Inl e
      | Inr texts \<Rightarrow> Inr (join (ascii '','') texts))"
| "to_text eng (JObj kvs) =
     (if map_of kvs (ascii ''toString'') = None then Inr (ascii ''[object Object]'')
      else Inl (JsError TypeError (convert_error_text eng)))"

section \<open>Timestamp Formatter\<close>

text \<open>
  \<^verbatim>\<open>
  function formatDateTimeLocal(isoString) {
      if (!isoString) return new Date().toLocaleString('pt-BR');
      const parts = isoString.split('T');
      if (parts.length >= 2) {
          const date = parts[0].split('-'); // [YYYY,MM,DD]
          const time = parts[1].split(':'); // [HH,MM,...]
          const day = date[2];
          const month = date[1];
          const year = date[0];
          const hour = time[0];
          const minute = time[1] || '00';
          return `${day}/${month}/${year} ${hour}:${minute}`;
      }
      try {
          return new Date(isoString).toLocaleString('pt-BR');
      } catch (e) {
          return isoString;
      }
  }
  \<close>
  \<open>new Date(s)\<close> does not raise on a string it cannot parse: it yields an invalid date,
  and \<open>toLocaleString\<close> prints an invalid date as \<open>Invalid Date\<close>. A truthy argument
  that is not a string has no \<open>split\<close> method, and the call raises a TypeError.
\<close>

definition Date_toLocaleString :: "jsstring option \<Rightarrow> js_error + jsstring" where
  "Date_toLocaleString d =
     (case d of None \<Rightarrow> Inr (ascii ''Invalid Date'') | Some t \<Rightarrow> Inr t)"

definition split_format :: "jsstring list \<Rightarrow> jsstring" where
  "split_format parts =
     (let date = js_split (parts ! 0) 0x2D;
          time = js_split (parts ! 1) 0x3A;
          day = at_index date 2;
          month = at_index date 1;
          year = at_index date 0;
          hour = at_index time 0;
          minute = or_default (at_index time 1) (ascii ''00'')
      in template_text day @ ascii ''/'' @ template_text month @ ascii ''/''
         @ template_text year @ ascii '' '' @ template_text hour @ ascii '':'' @ minute)"

definition formatDateTimeLocal :: "engine \<Rightarrow> jsval \<Rightarrow> js_error + jsstring" where
  "formatDateTimeLocal eng isoString =
     (if \<not> truthy isoString then Inr (locale_now eng)
      else (case isoString of
              JStr s \<Rightarrow>
                (let parts = js_split s 0x54 in
                 if length parts \<ge> 2 then Inr (split_format parts)
                 else (case Date_toLocaleString (locale_parse eng s) of
                         Inr t \<Rightarrow> Inr t
                       | Inl e \<Rightarrow> Inr s))
            | _ \<Rightarrow> Inl (JsError TypeError (type_error_text eng))))"

subsection \<open>The formatter as the specification words it\<close>

text \<open>
  Section 4.5: an input that splits on the separator into exactly a date part and a time
  part gives the date part reversed, then hour and minute (minute \<open>00\<close> when missing);
  any other input is parsed generically, and is returned unchanged when that parse fails.
\<close>

definition spec_formatTimestamp :: "engine \<Rightarrow> jsstring \<Rightarrow> jsstring" where
  "spec_formatTimestamp eng s =
     (if s = [] then locale_now eng
      else (case js_split s 0x54 of
              [d, t] \<Rightarrow>
                join (ascii ''/'') (rev (js_split d 0x2D)) @ ascii '' ''
                @ join (ascii '':'') (take 2 (js_split t 0x3A @ [ascii ''00'']))
            | _ \<Rightarrow> (case locale_parse eng s of Some t \<Rightarrow> t | None \<Rightarrow> s)))"

section \<open>Error messages shown to the user\<close>

text \<open>
  The catch block of the submit handler:
  \<^verbatim>\<open>
  let message = 'Cidade nao encontrada. Tente novamente.';
  if (err && err.message && !err.message.toLowerCase().includes('cidade')) {
      message = err.message || 'Erro ao buscar dados do clima. Tente novamente.';
  }
  error.textContent = message;
  \<close>
  Every value thrown in the handler is an error object, with a string for its message.
\<close>

definition city_not_found_message :: jsstring where
  "city_not_found_message =
     ascii ''Cidade n'' @ [0xE3] @ ascii ''o encontrada. Tente novamente.''"

definition user_message :: "js_error \<Rightarrow> jsstring" where
  "user_message err =
     (if message err \<noteq> [] \<and> \<not> js_includes (toLowerCase (message err)) (ascii ''cidade'')
      then or_default (Some (message err))
             (ascii ''Erro ao buscar dados do clima. Tente novamente.'')
      else city_not_found_message)"

text \<open>The errors the program itself throws.\<close>

definition name_required :: js_error where
  "name_required =
     JsError Error (ascii ''Nome da cidade '' @ [0xE9] @ ascii '' obrigat'' @ [0xF3] @ ascii ''rio'')"

definition geocoding_failed :: js_error where
  "geocoding_failed = JsError Error (ascii ''Erro ao buscar coordenadas da cidade'')"

definition city_not_found :: js_error where
  "city_not_found = JsError Error (ascii ''Cidade n'' @ [0xE3] @ ascii ''o encontrada'')"

definition weather_failed :: js_error where
  "weather_failed = JsError Error (ascii ''Erro ao buscar dados do clima'')"

definition forecast_failed :: js_error where
  "forecast_failed =
     JsError Error (ascii ''Erro ao buscar previs'' @ [0xE3] @ ascii ''o de 5 dias'')"

definition weather_unavailable :: js_error where
  "weather_unavailable =
     JsError Error (ascii ''Dados de clima indispon'' @ [0xED] @ ascii ''veis'')"

section \<open>Encoding of request addresses\<close>

text \<open>
  \<open>encodeURIComponent\<close> reads the string as code points, keeps the unreserved ASCII
  characters and writes every other code point as the percent-escaped bytes of its UTF-8
  form. A surrogate code unit without its partner raises a URIError.
\<close>

definition high_surrogate :: "16 word \<Rightarrow> bool" where
  "high_surrogate c \<longleftrightarrow> 0xD800 \<le> c \<and> c \<le> 0xDBFF"

definition low_surrogate :: "16 word \<Rightarrow> bool" where
  "low_surrogate c \<longleftrightarrow> 0xDC00 \<le> c \<and> c \<le> 0xDFFF"

fun code_points :: "jsstring \<Rightarrow> nat option list" where
  "code_points [] = []"
| "code_points [c] = [if high_surrogate c \<or> low_surrogate c then None else Some (unat c)]"
| "code_points (c # d # s) =
     (if high_surrogate c \<and> low_surrogate d
      then Some (0x10000 + (unat c - 0xD800) * 0x400 + (unat d - 0xDC00)) # code_points s
      else (if high_surrogate c \<or> low_surrogate c then None else Some (unat c))
           # code_points (d # s))"

definition utf8 :: "nat \<Rightarrow> nat list" where
  "utf8 cp =
     (if cp < 0x80 then [cp]
      else if cp < 0x800 then [0xC0 + cp div 0x40, 0x80 + cp mod 0x40]
      else if cp < 0x10000
        then [0xE0 + cp div 0x1000, 0x80 + cp div 0x40 mod 0x40, 0x80 + cp mod 0x40]
      else [0xF0 + cp div 0x40000, 0x80 + cp div 0x1000 mod 0x40,
            0x80 + cp div 0x40 mod 0x40, 0x80 + cp mod 0x40])"

definition hex_digit :: "nat \<Rightarrow> 16 word" where
  "hex_digit n = of_nat (if n < 10 then 48 + n else 55 + n)"

definition percent :: "nat \<Rightarrow> jsstring" where
  "percent b = [0x25, hex_digit (b div 16), hex_digit (b mod 16)]"

definition alphanumeric :: "nat \<Rightarrow> bool" where
  "alphanumeric cp \<longleftrightarrow>
     (48 \<le> cp \<and> cp \<le> 57) \<or> (65 \<le> cp \<and> cp \<le> 90) \<or> (97 \<le> cp \<and> cp \<le> 122)"

definition uri_unreserved :: "nat \<Rightarrow> bool" where
  "uri_unreserved cp \<longleftrightarrow>
     alphanumeric cp \<or> cp \<in> set [0x2D, 0x5F, 0x2E, 0x21, 0x7E, 0x2A, 0x27, 0x28, 0x29]"

definition encodeURIComponent :: "engine \<Rightarrow> jsstring \<Rightarrow> js_error + jsstring" where
  "encodeURIComponent eng s =
     (let cps = code_points s in
      if None \<in> set cps then Inl (JsError URIError (uri_error_text eng))
      else Inr (concat (map (\<lambda>cp. if uri_unreserved (the cp) then [of_nat (the cp)]
                                   else concat (map percent (utf8 (the cp)))) cps)))"

text \<open>
  The serialisation of \<open>URLSearchParams\<close>: names and values are written in the
  form-urlencoded way (a space becomes a plus sign, a lone surrogate is replaced by
  U+FFFD), joined by \<open>=\<close> and \<open>&\<close>. The serialisation never raises; the constructor
  converts the values it is given to strings first (\<open>to_text\<close>), and that may raise.
\<close>

definition form_unreserved :: "nat \<Rightarrow> bool" where
  "form_unreserved cp \<longleftrightarrow> alphanumeric cp \<or> cp \<in> set [0x2A, 0x2D, 0x2E, 0x5F]"

definition form_encode :: "jsstring \<Rightarrow> jsstring" where
  "form_encode s =
     concat (map (\<lambda>c. let cp = (case c of None \<Rightarrow> 0xFFFD | Some n \<Rightarrow> n) in
                      if cp = 0x20 then [0x2B]
                      else if form_unreserved cp then [of_nat cp]
                      else concat (map percent (utf8 cp))) (code_points s))"

definition URLSearchParams :: "(jsstring \<times> jsstring) list \<Rightarrow> jsstring" where
  "URLSearchParams params =
     join (ascii ''&'') (map (\<lambda>(k, v). form_encode k @ ascii ''='' @ form_encode v) params)"

section \<open>The network\<close>

text \<open>
  \<open>fetch\<close> is the only effect of the pipeline. The state of the network is the list of
  the addresses requested so far, and the answer it gives to each request (by the
  number of earlier requests and the address). An answer is a rejection (the request was
  not completed) or a response with its status and the outcome of \<open>res.json()\<close>;
  \<open>res.ok\<close> is true for the statuses 200 to 299.
\<close>

datatype fetch_result =
    Rejected js_error
  | Response nat "js_error + jsval"

record network =
  requests :: "jsstring list"
  respond :: "nat \<Rightarrow> jsstring \<Rightarrow> fetch_result"

definition fetch :: "network \<Rightarrow> jsstring \<Rightarrow> fetch_result \<times> network" where
  "fetch net url =
     (respond net (length (requests net)) url, net\<lparr>requests := requests net @ [url]\<rparr>)"

definition ok :: "nat \<Rightarrow> bool" where
  "ok status \<longleftrightarrow> 200 \<le> status \<and> status \<le> 299"

definition API_BASE_URL :: jsstring where
  "API_BASE_URL = ascii ''https://geocoding-api.open-meteo.com/v1/search''"

definition WEATHER_API_URL :: jsstring where
  "WEATHER_API_URL = ascii ''https://api.open-meteo.com/v1/forecast''"

section \<open>Coordinate Resolver\<close>

text \<open>
  \<^verbatim>\<open>
  async function getCityCoordinates(cityName) {
      if (!cityName || !cityName.trim()) {
          throw new Error('Nome da cidade e obrigatorio');
      }
      const url = `${API_BASE_URL}?name=${encodeURIComponent(cityName)}&count=1&language=pt&format=json`;
      const res = await fetch(url);
      if (!res.ok) throw new Error('Erro ao buscar coordenadas da cidade');
      const data = await res.json();
      if (!data.results || data.results.length === 0) throw new Error('Cidade nao encontrada');
      const r = data.results[0];
      return { lat: r.latitude, lon: r.longitude, name: r.name, country: r.country };
  }
  \<close>
\<close>

definition geocoding_url :: "jsstring \<Rightarrow> jsstring" where
  "geocoding_url encoded =
     API_BASE_URL @ ascii ''?name='' @ encoded @ ascii ''&count=1&language=pt&format=json''"

record coords =
  lat :: jsval
  lon :: jsval
  name :: jsval
  country :: jsval

text \<open>The part of the function after \<open>const data = await res.json()\<close>.\<close>

definition read_coordinates :: "engine \<Rightarrow> jsval \<Rightarrow> js_error + coords" where
  "read_coordinates eng data =
     and_then (get_member eng data (ascii ''results'')) (\<lambda>results.
       if \<not> truthy results then Inl city_not_found
       else and_then (get_member eng results (ascii ''length'')) (\<lambda>len.
         if len = JNum 0 then Inl city_not_found
         else and_then (get_first eng results) (\<lambda>r.
           and_then (get_member eng r (ascii ''latitude'')) (\<lambda>latitude.
           and_then (get_member eng r (ascii ''longitude'')) (\<lambda>longitude.
           and_then (get_member eng r (ascii ''name'')) (\<lambda>name.
           and_then (get_member eng r (ascii ''country'')) (\<lambda>country.
             Inr \<lparr>lat = latitude, lon = longitude, name = name, country = country\<rparr>)))))))"

definition getCityCoordinates ::
  "engine \<Rightarrow> network \<Rightarrow> jsstring \<Rightarrow> (js_error + coords) \<times> network" where
  "getCityCoordinates eng net cityName =
     (if cityName = [] \<or> trim cityName = [] then (Inl name_required, net)
      else (case encodeURIComponent eng cityName of
              Inl e \<Rightarrow> (Inl e, net)
            | Inr encoded \<Rightarrow>
                (let url = geocoding_url encoded;
                     (res, net') = fetch net url
                 in (case res of
                       Rejected e \<Rightarrow> (Inl e, net')
                     | Response status body \<Rightarrow>
                         if \<not> ok status then (Inl geocoding_failed, net')
                         else (case body of
                                 Inl e \<Rightarrow> (Inl e, net')
                               | Inr data \<Rightarrow> (read_coordinates eng data, net'))))))"

section \<open>Weather Fetcher\<close>

text \<open>
  \<^verbatim>\<open>
  async function getWeatherData(lat, lon) {
      const params = new URLSearchParams({ latitude: lat, longitude: lon,
                                           current_weather: 'true', timezone: 'auto' });
      const res = await fetch(`${WEATHER_API_URL}?${params}`);
      if (!res.ok) throw new Error('Erro ao buscar dados do clima');
      const data = await res.json();
      return data.current_weather || null;
  }
  \<close>
  The constructor of the parameters converts the latitude and then the longitude to
  strings. When a conversion raises, the function raises before \<open>fetch\<close> is called and
  no request is sent.
\<close>

definition weather_url :: "engine \<Rightarrow> jsval \<Rightarrow> jsval \<Rightarrow> js_error + jsstring" where
  "weather_url eng latitude longitude =
     and_then (to_text eng latitude) (\<lambda>latitude_text.
     and_then (to_text eng longitude) (\<lambda>longitude_text.
       (let params = URLSearchParams
              [(ascii ''latitude'', latitude_text),
               (ascii ''longitude'', longitude_text),
               (ascii ''current_weather'', ascii ''true''), (ascii ''timezone'', ascii ''auto'')]
        in Inr (WEATHER_API_URL @ ascii ''?'' @ params))))"

definition getWeatherData ::
  "engine \<Rightarrow> network \<Rightarrow> jsval \<Rightarrow> jsval \<Rightarrow> (js_error + jsval) \<times> network" where
  "getWeatherData eng net latitude longitude =
     (case weather_url eng latitude longitude of
        Inl e \<Rightarrow> (Inl e, net)
      | Inr url \<Rightarrow>
          (let (res, net') = fetch net url
           in (case res of
                 Rejected e \<Rightarrow> (Inl e, net')
               | Response status body \<Rightarrow>
                   if \<not> ok status then (Inl weather_failed, net')
                   else (case body of
                           Inl e \<Rightarrow> (Inl e, net')
                         | Inr data \<Rightarrow>
                             (and_then (get_member eng data (ascii ''current_weather''))
                                (\<lambda>current_weather.
                                   Inr (if truthy current_weather then current_weather
                                        else JNull)),
                              net')))))"

section \<open>Dates\<close>

text \<open>
  A date object holds a time value: milliseconds since the epoch, in UTC. The day number
  of a time value and the calendar date of a day number are those of the language
  definition (proleptic Gregorian calendar); months count from 0 in \<open>MonthFromTime\<close> and
  \<open>MakeDay\<close>. \<open>getDate\<close> and \<open>setDate\<close> work on local time, \<open>toISOString\<close> prints UTC.
  The offset of the zone is taken at the time converted: \<open>setDate\<close> reads the local
  fields with the offset at the old time value and stores the new local time with the
  offset in force at that local time, so the two differ across a change of daylight
  saving.
\<close>

definition msPerDay :: int where
  "msPerDay = 86400000"

definition Day :: "int \<Rightarrow> int" where
  "Day t = t div msPerDay"

definition TimeWithinDay :: "int \<Rightarrow> int" where
  "TimeWithinDay t = t mod msPerDay"

definition civil_from_days :: "int \<Rightarrow> int \<times> int \<times> int" where
  "civil_from_days z =
     (let z' = z + 719468;
          era = z' div 146097;
          doe = z' - era * 146097;
          yoe = (doe - doe div 1460 + doe div 36524 - doe div 146096) div 365;
          doy = doe - (365 * yoe + yoe div 4 - yoe div 100);
          mp = (5 * doy + 2) div 153;
          d = doy - (153 * mp + 2) div 5 + 1;
          m = (if mp < 10 then mp + 3 else mp - 9);
          y = yoe + era * 400
      in (if m \<le> 2 then y + 1 else y, m, d))"

definition days_from_civil :: "int \<Rightarrow> int \<Rightarrow> int \<Rightarrow> int" where
  "days_from_civil y m d =
     (let y' = (if m \<le> 2 then y - 1 else y);
          era = y' div 400;
          yoe = y' - era * 400;
          doy = (153 * (if m > 2 then m - 3 else m + 9) + 2) div 5 + d - 1;
          doe = yoe * 365 + yoe div 4 - yoe div 100 + doy
      in era * 146097 + doe - 719468)"

definition YearFromTime :: "int \<Rightarrow> int" where
  "YearFromTime t = fst (civil_from_days (Day t))"

definition MonthFromTime :: "int \<Rightarrow> int" where
  "MonthFromTime t = fst (snd (civil_from_days (Day t))) - 1"

definition DateFromTime :: "int \<Rightarrow> int" where
  "DateFromTime t = snd (snd (civil_from_days (Day t)))"

definition MakeDay :: "int \<Rightarrow> int \<Rightarrow> int \<Rightarrow> int" where
  "MakeDay year month date =
     days_from_civil (year + month div 12) (month mod 12 + 1) 1 + date - 1"

definition MakeDate :: "int \<Rightarrow> int \<Rightarrow> int" where
  "MakeDate day time = day * msPerDay + time"

definition LocalTZA :: "engine \<Rightarrow> int \<Rightarrow> bool \<Rightarrow> int" where
  "LocalTZA eng t isUTC = local_offset eng + daylight_saving eng t isUTC"

definition LocalTime :: "engine \<Rightarrow> int \<Rightarrow> int" where
  "LocalTime eng t = t + LocalTZA eng t True"

definition UTC :: "engine \<Rightarrow> int \<Rightarrow> int" where
  "UTC eng t = t - LocalTZA eng t False"

definition getDate :: "engine \<Rightarrow> int \<Rightarrow> int" where
  "getDate eng tv = DateFromTime (LocalTime eng tv)"

definition setDate :: "engine \<Rightarrow> int \<Rightarrow> int \<Rightarrow> int" where
  "setDate eng tv date =
     (let t = LocalTime eng tv;
          newDate = MakeDate (MakeDay (YearFromTime t) (MonthFromTime t) date) (TimeWithinDay t)
      in UTC eng newDate)"

definition year_text :: "int \<Rightarrow> jsstring" where
  "year_text y =
     (if 0 \<le> y \<and> y \<le> 9999 then pad 4 (digits (nat y))
      else (if y < 0 then 0x2D else 0x2B) # pad 6 (digits (nat (abs y))))"

definition date_text :: "int \<times> int \<times> int \<Rightarrow> jsstring" where
  "date_text ymd =
     (case ymd of (y, m, d) \<Rightarrow>
        year_text y @ ascii ''-'' @ pad 2 (digits (nat m)) @ ascii ''-'' @ pad 2 (digits (nat d)))"

definition toISOString :: "engine \<Rightarrow> int \<Rightarrow> js_error + jsstring" where
  "toISOString eng tv =
     (if abs tv > 8640000000000000 then Inl (JsError RangeError (range_error_text eng))
      else (let t = TimeWithinDay tv in
            Inr (date_text (civil_from_days (Day tv)) @ ascii ''T''
                 @ pad 2 (digits (nat (t div 3600000))) @ ascii '':''
                 @ pad 2 (digits (nat (t div 60000 mod 60))) @ ascii '':''
                 @ pad 2 (digits (nat (t div 1000 mod 60))) @ ascii ''.''
                 @ pad 3 (digits (nat (t mod 1000))) @ ascii ''Z'')))"

text \<open>\<open>s.slice(0, 10)\<close>.\<close>

definition slice_0_10 :: "jsstring \<Rightarrow> jsstring" where
  "slice_0_10 s = take 10 s"

section \<open>Forecast Fetcher\<close>

text \<open>
  \<^verbatim>\<open>
  async function get5DayForecast(lat, lon) {
      const today = new Date();
      const startDate = today.toISOString().slice(0, 10);
      const end = new Date(today);
      end.setDate(end.getDate() + 4);
      const endDate = end.toISOString().slice(0, 10);
      const params = new URLSearchParams({ latitude: lat, longitude: lon,
          daily: 'temperature_2m_max,temperature_2m_min,weathercode',
          timezone: 'auto', start_date: startDate, end_date: endDate });
      const res = await fetch(`${WEATHER_API_URL}?${params}`);
      if (!res.ok) throw new Error('Erro ao buscar previsao de 5 dias');
      const data = await res.json();
      return data.daily || null;
  }
  \<close>
\<close>

definition forecast_window :: "engine \<Rightarrow> js_error + jsstring \<times> jsstring" where
  "forecast_window eng =
     (let today = time_now eng in
      and_then (toISOString eng today) (\<lambda>iso.
        let startDate = slice_0_10 iso;
            end = setDate eng today (getDate eng today + 4)
        in and_then (toISOString eng end) (\<lambda>iso'. Inr (startDate, slice_0_10 iso'))))"

definition forecast_url ::
  "engine \<Rightarrow> jsval \<Rightarrow> jsval \<Rightarrow> jsstring \<Rightarrow> jsstring \<Rightarrow> js_error + jsstring" where
  "forecast_url eng latitude longitude startDate endDate =
     and_then (to_text eng latitude) (\<lambda>latitude_text.
     and_then (to_text eng longitude) (\<lambda>longitude_text.
       (let params = URLSearchParams
              [(ascii ''latitude'', latitude_text),
               (ascii ''longitude'', longitude_text),
               (ascii ''daily'', ascii ''temperature_2m_max,temperature_2m_min,weathercode''),
               (ascii ''timezone'', ascii ''auto''),
               (ascii ''start_date'', startDate), (ascii ''end_date'', endDate)]
        in Inr (WEATHER_API_URL @ ascii ''?'' @ params))))"

definition get5DayForecast ::
  "engine \<Rightarrow> network \<Rightarrow> jsval \<Rightarrow> jsval \<Rightarrow> (js_error + jsval) \<times> network" where
  "get5DayForecast eng net latitude longitude =
     (case forecast_window eng of
        Inl e \<Rightarrow> (Inl e, net)
      | Inr (startDate, endDate) \<Rightarrow>
          (case forecast_url eng latitude longitude startDate endDate of
             Inl e \<Rightarrow> (Inl e, net)
           | Inr url \<Rightarrow>
               (let (res, net') = fetch net url
                in (case res of
                      Rejected e \<Rightarrow> (Inl e, net')
                    | Response status body \<Rightarrow>
                        if \<not> ok status then (Inl forecast_failed, net')
                        else (case body of
                                Inl e \<Rightarrow> (Inl e, net')
                              | Inr data \<Rightarrow>
                                  (and_then (get_member eng data (ascii ''daily''))
                                     (\<lambda>daily. Inr (if truthy daily then daily else JNull)),
                                   net'))))))"

text \<open>
  The local calendar date of the process at the call, printed as the window's dates are.
\<close>

definition local_date_text :: "engine \<Rightarrow> jsstring" where
  "local_date_text eng = date_text (civil_from_days (Day (LocalTime eng (time_now eng))))"

section \<open>Orchestrator\<close>

text \<open>
  The submit handler of the search form:
  \<^verbatim>\<open>
  const cityName = cityInput.value.trim();
  if (!cityName) { return; }
  error.style.display = 'none';
  weatherInfo.style.display = 'none';
  try {
      const cityData = await getCityCoordinates(cityName);
      const weather = await getWeatherData(cityData.lat, cityData.lon);
      if (!weather) throw new Error('Dados de clima indisponiveis');
      const desc = getWeatherDescription(weather.weathercode);
      if (cityEl) cityEl.textContent = `${cityData.name}, ${cityData.country}`;
      if (tempEl) tempEl.textContent = `${Math.round(weather.temperature)} C`;
      descEl.textContent = desc;
      const formatted = formatDateTimeLocal(weather.time);
      datetimeEl.textContent = `${formatted}`;
      const iconClass = getWeatherIcon(weather.weathercode);
      iconEl.className = `wi weather-icon ${iconClass}`;
      try {
          const daily = await get5DayForecast(cityData.lat, cityData.lon);
          let forecastEl = document.getElementById('forecast5');
          if (!forecastEl) { ... create it inside weatherInfo ... }
          else { forecastEl.innerHTML = ''; }
          if (daily && Array.isArray(daily.time) && daily.time.length) {
              ... forecastEl.appendChild(titleEl);
              ... one list item per day ...
              forecastEl.appendChild(list);
          }
      } catch (e) {
          console.warn('Erro ao obter previsao de 5 dias', e);
      }
      loading.style.display = 'none';
      weatherInfo.style.display = 'block';
      ...
  } catch (err) {
      ... message as in user_message ...
      error.textContent = message;
      error.style.display = 'block';
  }
  \<close>
  The two translators applied to a value read from the response: a number that is an
  integer is the code; another number, \<open>undefined\<close>, \<open>null\<close> and the booleans name no
  member of the table and are strictly equal to no code. Any other value is converted to
  a property key by getWeatherDescription, which may raise, and is strictly equal to no
  code in getWeatherIcon.
\<close>

definition getWeatherDescription_of :: "engine \<Rightarrow> jsval \<Rightarrow> js_error + jsstring" where
  "getWeatherDescription_of eng code =
     (case code of
        JNum x \<Rightarrow> Inr (if x = of_int \<lfloor>x\<rfloor> then getWeatherDescription \<lfloor>x\<rfloor>
                      else unknown_condition)
      | JUndefined \<Rightarrow> Inr unknown_condition
      | JNull \<Rightarrow> Inr unknown_condition
      | JBool b \<Rightarrow> Inr unknown_condition
      | _ \<Rightarrow> and_then (to_text eng code) (\<lambda>key. Inr (keyed_description eng key)))"

definition getWeatherIcon_of :: "jsval \<Rightarrow> jsstring" where
  "getWeatherIcon_of code =
     (case code of
        JNum x \<Rightarrow> if x = of_int \<lfloor>x\<rfloor> then getWeatherIcon \<lfloor>x\<rfloor> else ascii ''wi-na''
      | _ \<Rightarrow> ascii ''wi-na'')"

text \<open>
  \<open>`${Math.round(v)}`\<close>: a number is rounded to the nearest integer, a tie upwards;
  \<open>undefined\<close> gives \<open>NaN\<close>, \<open>null\<close> and the booleans give 0 and 1; an array or an
  object is converted to a string first, which may raise.
\<close>

definition Math_round_text :: "engine \<Rightarrow> jsval \<Rightarrow> js_error + jsstring" where
  "Math_round_text eng v =
     (case v of
        JNum x \<Rightarrow> Inr (number_text eng (of_int \<lfloor>x + 1 / 2\<rfloor>))
      | JUndefined \<Rightarrow> Inr (ascii ''NaN'')
      | JNull \<Rightarrow> Inr (ascii ''0'')
      | JBool b \<Rightarrow> Inr (if b then ascii ''1'' else ascii ''0'')
      | JStr s \<Rightarrow> Inr (round_text eng s)
      | _ \<Rightarrow> and_then (to_text eng v) (\<lambda>s. Inr (round_text eng s)))"

record display =
  city_text :: jsstring
  temperature_text :: jsstring
  description_text :: jsstring
  formatted_time :: jsstring
  icon_class :: jsstring

text \<open>
  The values of the current observation, computed before the forecast is asked for, in
  the order of the handler: the description, the city text, the temperature, the
  timestamp, the icon. The page has the elements \<open>cityName\<close> and \<open>temperature\<close>, so
  both texts are computed. The first step that raises ends the computation.
\<close>

definition current_display :: "engine \<Rightarrow> coords \<Rightarrow> jsval \<Rightarrow> js_error + display" where
  "current_display eng cityData weather =
     and_then (get_member eng weather (ascii ''weathercode'')) (\<lambda>weathercode.
     and_then (getWeatherDescription_of eng weathercode) (\<lambda>desc.
     and_then (to_text eng (name cityData)) (\<lambda>name_text.
     and_then (to_text eng (country cityData)) (\<lambda>country_text.
     and_then (get_member eng weather (ascii ''temperature'')) (\<lambda>temperature.
     and_then (Math_round_text eng temperature) (\<lambda>rounded.
     and_then (get_member eng weather (ascii ''time'')) (\<lambda>time.
     and_then (formatDateTimeLocal eng time) (\<lambda>formatted.
       Inr \<lparr>city_text = name_text @ ascii '', '' @ country_text,
            temperature_text = rounded @ [0xB0] @ ascii ''C'',
            description_text = desc,
            formatted_time = formatted,
            icon_class = getWeatherIcon_of weathercode\<rparr>))))))))"

text \<open>
  The forecast step is the inner \<open>try\<close>. Building the list of days is work on the page
  and is a parameter \<open>render\<close>, which may raise. The step ends in one of four ways:
  get5DayForecast raised, before the container was looked up; the container was created
  or cleared and nothing was added; the title was added and building the list raised;
  the title and the list were added. In the first and the third the error is caught and
  logged.
\<close>

datatype 'p forecast_view =
    ForecastRaised js_error
  | ForecastEmpty
  | ForecastBroken js_error
  | ForecastRows 'p

definition forecast_step ::
  "engine \<Rightarrow> (jsval \<Rightarrow> js_error + 'p) \<Rightarrow> network \<Rightarrow> coords \<Rightarrow> 'p forecast_view \<times> network" where
  "forecast_step eng render net cityData =
     (case get5DayForecast eng net (lat cityData) (lon cityData) of
        (Inl e, net') \<Rightarrow> (ForecastRaised e, net')
      | (Inr daily, net') \<Rightarrow>
          (if truthy daily
           then (case get_member eng daily (ascii ''time'') of
                   Inr (JArr (t # ts)) \<Rightarrow>
                     (case render daily of
                        Inl e \<Rightarrow> ForecastBroken e
                      | Inr p \<Rightarrow> ForecastRows p)
                 | _ \<Rightarrow> ForecastEmpty)
           else ForecastEmpty, net'))"

datatype 'p outcome =
    NotSubmitted
  | WeatherShown display "'p forecast_view"
  | ErrorShown jsstring

definition submit ::
  "engine \<Rightarrow> (jsval \<Rightarrow> js_error + 'p) \<Rightarrow> network \<Rightarrow> jsstring \<Rightarrow> 'p outcome \<times> network" where
  "submit eng render net input =
     (let cityName = trim input in
      if cityName = [] then (NotSubmitted, net)
      else (case getCityCoordinates eng net cityName of
              (Inl err, net1) \<Rightarrow> (ErrorShown (user_message err), net1)
            | (Inr cityData, net1) \<Rightarrow>
                (case getWeatherData eng net1 (lat cityData) (lon cityData) of
                   (Inl err, net2) \<Rightarrow> (ErrorShown (user_message err), net2)
                 | (Inr weather, net2) \<Rightarrow>
                     if \<not> truthy weather
                     then (ErrorShown (user_message weather_unavailable), net2)
                     else (case current_display eng cityData weather of
                             Inl err \<Rightarrow> (ErrorShown (user_message err), net2)
                           | Inr shown \<Rightarrow>
                               (case forecast_step eng render net2 cityData of
                                  (view, net3) \<Rightarrow> (WeatherShown shown view, net3))))))"

section \<open>The page\<close>

text \<open>
  What the handler leaves on the page. The element \<open>weatherInfo\<close> is hidden when the
  handler starts and is shown, with the values of the current observation, when the outer
  \<open>try\<close> completes; the element \<open>error\<close> is hidden when the handler starts and shown
  with the message in the \<open>catch\<close>. The forecast container \<open>forecast5\<close> lives inside
  \<open>weatherInfo\<close> and stays in the document from one query to the next: the handler
  creates it, or empties it, only after \<open>await get5DayForecast\<close> has returned, and then
  adds the title and the list. When get5DayForecast raises, the container is not reached
  and keeps what it held.
\<close>

datatype 'p panel =
    NoPanel
  | EmptyPanel
  | TitleOnly
  | TitleAndRows 'p

record 'p page =
  weather_info :: "display option"
  forecast5 :: "'p panel"
  error_box :: "jsstring option"

definition forecast5_after :: "'p panel \<Rightarrow> 'p forecast_view \<Rightarrow> 'p panel" where
  "forecast5_after before view =
     (case view of
        ForecastRaised e \<Rightarrow> before
      | ForecastEmpty \<Rightarrow> EmptyPanel
      | ForecastBroken e \<Rightarrow> TitleOnly
      | ForecastRows p \<Rightarrow> TitleAndRows p)"

definition page_after :: "'p page \<Rightarrow> 'p outcome \<Rightarrow> 'p page" where
  "page_after pg result =
     (case result of
        NotSubmitted \<Rightarrow> pg
      | ErrorShown msg \<Rightarrow> pg\<lparr>weather_info := None, error_box := Some msg\<rparr>
      | WeatherShown shown view \<Rightarrow>
          \<lparr>weather_info = Some shown,
           forecast5 = forecast5_after (forecast5 pg) view,
           error_box = None\<rparr>)"

definition submit_on_page ::
  "engine \<Rightarrow> (jsval \<Rightarrow> js_error + 'p) \<Rightarrow> 'p page \<times> network \<Rightarrow> jsstring
     \<Rightarrow> 'p page \<times> network" where
  "submit_on_page eng render state input =
     (case submit eng render (snd state) input of
        (result, net') \<Rightarrow> (page_after (fst state) result, net'))"

text \<open>
  The button that leads back to the search form:
  \<^verbatim>\<open>
  function showSearchForm() {
      searchForm.style.display = 'flex';
      weatherInfo.style.display = 'none';
      error.style.display = 'none';
      ...
  }
  \<close>
\<close>

definition showSearchForm :: "'p page \<Rightarrow> 'p page" where
  "showSearchForm pg = pg\<lparr>weather_info := None, error_box := None\<rparr>"

definition first_page :: "'p page" where
  "first_page = \<lparr>weather_info = None, forecast5 = NoPanel, error_box = None\<rparr>"

section \<open>A sample run\<close>

text \<open>
  An engine and a network on which the definitions are evaluated: the clock stands at
  2025-11-11T01:00:00Z in a process three hours behind UTC with no daylight saving
  (local time 22:00 on the 10th), numbers print in decimal, and the date parser accepts
  no string.
\<close>

fun fraction_digits :: "nat \<Rightarrow> rat \<Rightarrow> jsstring" where
  "fraction_digits 0 r = []"
| "fraction_digits (Suc k) r =
     (if r = 0 then []
      else digit (nat \<lfloor>r * 10\<rfloor>) # fraction_digits k (r * 10 - of_int \<lfloor>r * 10\<rfloor>))"

definition decimal_text :: "rat \<Rightarrow> jsstring" where
  "decimal_text x =
     (let whole = \<lfloor>\<bar>x\<bar>\<rfloor>; part = \<bar>x\<bar> - of_int whole
      in (if x < 0 then ascii ''-'' else []) @ digits (nat whole)
         @ (if part = 0 then [] else ascii ''.'' @ fraction_digits 17 part))"

definition sample_engine :: engine where
  "sample_engine =
     \<lparr>time_now = 1762822800000,
      local_offset = - 10800000,
      daylight_saving = (\<lambda>t utc. 0),
      locale_now = ascii ''10/11/2025, 22:00:00'',
      locale_parse = (\<lambda>s. None),
      number_text = decimal_text,
      round_text = (\<lambda>s. ascii ''NaN''),
      keyed_description = (\<lambda>s. unknown_condition),
      type_error_text = ascii ''Cannot read properties'',
      convert_error_text = ascii ''Cannot convert object to primitive value'',
      uri_error_text = ascii ''URI malformed'',
      range_error_text = ascii ''Invalid time value''\<rparr>"

definition answering :: "fetch_result list \<Rightarrow> network" where
  "answering rs =
     \<lparr>requests = [],
      respond = (\<lambda>n url. if n < length rs then rs ! n
                          else Rejected (JsError TypeError (ascii ''Failed to fetch'')))\<rparr>"

definition sample_city :: jsval where
  "sample_city =
     JObj [(ascii ''results'',
            JArr [JObj [(ascii ''latitude'', JNum (- 2355 / 100)),
                        (ascii ''longitude'', JNum (- 4663 / 100)),
                        (ascii ''name'', JStr (ascii ''S'' @ [0xE3] @ ascii ''o Paulo'')),
                        (ascii ''country'', JStr (ascii ''Brazil''))]])]"

definition sample_weather :: jsval where
  "sample_weather =
     JObj [(ascii ''current_weather'',
            JObj [(ascii ''temperature'', JNum (254 / 10)),
                  (ascii ''weathercode'', JNum 63),
                  (ascii ''time'', JStr (ascii ''2025-11-10T15:00''))])]"

definition sample_daily :: jsval where
  "sample_daily =
     JObj [(ascii ''time'', JArr [JStr (ascii ''2025-11-11''), JStr (ascii ''2025-11-12'')]),
           (ascii ''temperature_2m_max'', JArr [JNum 29, JNum 31]),
           (ascii ''temperature_2m_min'', JArr [JNum 18, JNum 19]),
           (ascii ''weathercode'', JArr [JNum 63, JNum 2])]"

definition sample_forecast :: jsval where
  "sample_forecast = JObj [(ascii ''daily'', sample_daily)]"

definition second_city :: jsval where
  "second_city =
     JObj [(ascii ''results'',
            JArr [JObj [(ascii ''latitude'', JNum (3872 / 100)),
                        (ascii ''longitude'', JNum (- 914 / 100)),
                        (ascii ''name'', JStr (ascii ''Lisboa'')),
                        (ascii ''country'', JStr (ascii ''Portugal''))]])]"

definition second_weather :: jsval where
  "second_weather =
     JObj [(ascii ''current_weather'',
            JObj [(ascii ''temperature'', JNum (185 / 10)),
                  (ascii ''weathercode'', JNum 2),
                  (ascii ''time'', JStr (ascii ''2025-11-11T01:00''))])]"

text \<open>
  Two queries on one page. The first, for Sao Paulo, is answered in full, with a forecast
  of two days; the user goes back to the search form; the second, for Lisboa, gets its
  coordinates and its current weather, and its forecast request is answered with the
  status 500. The rows of a forecast panel are identified by the daily data they are
  built from.
\<close>

definition sample_answers :: "fetch_result list" where
  "sample_answers =
     [Response 200 (Inr sample_city), Response 200 (Inr sample_weather),
      Response 200 (Inr sample_forecast),
      Response 200 (Inr second_city), Response 200 (Inr second_weather),
      Response 500 (Inr JNull)]"

definition after_first_query :: "jsval page \<times> network" where
  "after_first_query =
     submit_on_page sample_engine (\<lambda>daily. Inr daily) (first_page, answering sample_answers)
       (ascii ''S'' @ [0xE3] @ ascii ''o Paulo'')"

definition after_second_query :: "jsval page \<times> network" where
  "after_second_query =
     submit_on_page sample_engine (\<lambda>daily. Inr daily)
       (showSearchForm (fst after_first_query), snd after_first_query) (ascii ''Lisboa'')"

section \<open>Properties of the Code Translator\<close>

lemma getWeatherDescription_spec: "getWeatherDescription code = spec_description code"
  by (simp add: getWeatherDescription_def spec_description_def weather_map_def
      spec_descriptions_def or_default_def unknown_condition_def ascii_def)

lemma getWeatherIcon_spec: "getWeatherIcon code = spec_iconIdentifier code"
  by (simp add: getWeatherIcon_def spec_iconIdentifier_def spec_icon_groups_def)

lemma spec_tables_cover_known_codes:
  "map fst spec_descriptions = known_codes \<and> concat (map fst spec_icon_groups) =
     [0, 1, 2, 3, 45, 48, 51, 53, 55, 61, 63, 65, 80, 81, 82, 71, 73, 75, 85, 86, 77, 95, 96, 99]
   \<and> distinct known_codes \<and> length known_codes = 24"
  by (simp add: spec_descriptions_def spec_icon_groups_def known_codes_def)

text \<open>
  Claim C2. getWeatherDescription and getWeatherIcon are total functions of an integer
  code that reproduce the reference table: on each of the 24 known codes they return the
  description of the table and the icon token of the code's group, on every other integer
  (negative or above the known range included) the fallback description and the fallback
  token \<open>wi-na\<close>. They are functions of the code alone, so equal inputs give equal
  outputs, and no input raises.
\<close>

theorem C2_code_translator_matches_table:
  "getWeatherDescription code = spec_description code
   \<and> getWeatherIcon code = spec_iconIdentifier code
   \<and> (if List.member known_codes code
       then map_of spec_descriptions code = Some (getWeatherDescription code)
       else getWeatherDescription code = unknown_condition
            \<and> getWeatherIcon code = ascii ''wi-na'')"
  by (simp add: getWeatherDescription_def spec_description_def weather_map_def
      spec_descriptions_def or_default_def unknown_condition_def ascii_def
      getWeatherIcon_def spec_iconIdentifier_def spec_icon_groups_def
      known_codes_def)

section \<open>Facts about the string operations\<close>

lemma js_includes_iff: "js_includes s t \<longleftrightarrow> (\<exists>u v. s = u @ t @ v)"
proof (induction s)
  case Nil
  then show ?case by auto
next
  case (Cons c s)
  show ?case
  proof
    assume "js_includes (c # s) t"
    then consider "take (length t) (c # s) = t" | "js_includes s t" by auto
    then show "\<exists>u v. c # s = u @ t @ v"
    proof cases
      case 1
      then have "c # s = [] @ t @ drop (length t) (c # s)"
        by (metis append_Nil append_take_drop_id)
      then show ?thesis by blast
    next
      case 2
      then obtain u v where "s = u @ t @ v" using Cons.IH by blast
      then have "c # s = (c # u) @ t @ v" by simp
      then show ?thesis by blast
    qed
  next
    assume "\<exists>u v. c # s = u @ t @ v"
    then obtain u v where uv: "c # s = u @ t @ v" by blast
    show "js_includes (c # s) t"
    proof (cases u)
      case Nil
      then have "take (length t) (c # s) = t" using uv by simp
      then show ?thesis by simp
    next
      case (Cons a u')
      then have "s = u' @ t @ v" using uv by simp
      then have "js_includes s t" using Cons.IH by blast
      then show ?thesis by simp
    qed
  qed
qed

section \<open>Properties of the error messages\<close>

lemma user_message_cases:
  "user_message err =
     (if message err = [] \<or> js_includes (toLowerCase (message err)) (ascii ''cidade'')
      then city_not_found_message else message err)"
  by (simp add: user_message_def or_default_def)

lemma user_message_program_errors:
  "user_message name_required = city_not_found_message"
  "user_message geocoding_failed = city_not_found_message"
  "user_message city_not_found = city_not_found_message"
  "user_message weather_failed = message weather_failed"
  "user_message weather_unavailable = message weather_unavailable"
  by (simp_all add: user_message_cases name_required_def geocoding_failed_def
      city_not_found_def weather_failed_def weather_unavailable_def toLowerCase_def
      lower_unit_def ascii_def)

text \<open>
  Claim C1, as the specification states it, fails: the fixed text of the geocoding
  upstream error, \<open>Erro ao buscar coordenadas da cidade\<close>, does contain the word
  \<open>cidade\<close>, so the handler shows the normalised not-found message for it and not the
  text itself. A geocoding request answered with status 500 is shown that way.
\<close>

theorem C1_geocoding_upstream_counterexample:
  "message geocoding_failed = ascii ''Erro ao buscar coordenadas da cidade''
   \<and> user_message geocoding_failed = city_not_found_message
   \<and> user_message geocoding_failed \<noteq> message geocoding_failed
   \<and> fst (submit sample_engine (\<lambda>daily. Inr daily) (answering [Response 500 (Inr JNull)])
            (ascii ''Lisboa'')) = ErrorShown city_not_found_message"
  by code_simp

text \<open>
  Claim C1, amended. A failure with a non-empty message is shown verbatim when its
  message, in lower case, does not contain \<open>cidade\<close>, and as the fixed message
  \<open>Cidade nao encontrada. Tente novamente.\<close> (with a tilde on the a) when it does. The
  validation error, the geocoding upstream error and the not-found error all contain the
  word and are shown as the fixed message; the upstream error of the weather request and
  the unavailable-data error are shown verbatim.
\<close>

theorem C1_failure_message:
  assumes "message err \<noteq> []"
  shows "user_message err =
           (if js_includes (toLowerCase (message err)) (ascii ''cidade'')
            then city_not_found_message else message err)
         \<and> user_message name_required = city_not_found_message
         \<and> user_message geocoding_failed = city_not_found_message
         \<and> user_message city_not_found = city_not_found_message
         \<and> user_message weather_failed = message weather_failed
         \<and> user_message weather_unavailable = message weather_unavailable"
proof -
  have "user_message err =
          (if js_includes (toLowerCase (message err)) (ascii ''cidade'')
           then city_not_found_message else message err)"
    using assms by (simp add: user_message_cases)
  then show ?thesis
    using user_message_program_errors by simp
qed

theorem C1_failure_message_witness:
  "message (JsError TypeError (ascii ''Failed to fetch'')) \<noteq> []
   \<and> user_message (JsError TypeError (ascii ''Failed to fetch'')) = ascii ''Failed to fetch''"
proof -
  have h: "message (JsError TypeError (ascii ''Failed to fetch'')) \<noteq> []"
    by (simp add: ascii_def)
  have n: "\<not> js_includes (toLowerCase (ascii ''Failed to fetch'')) (ascii ''cidade'')"
    by (simp add: toLowerCase_def lower_unit_def ascii_def)
  show ?thesis using h n C1_failure_message [OF h] by simp
qed

section \<open>Properties of the Timestamp Formatter\<close>

lemma js_split_no_sep: "sep \<notin> set a \<Longrightarrow> js_split a sep = [a]"
  by (induction a) auto

lemma js_split_append:
  "sep \<notin> set a \<Longrightarrow> js_split (a @ sep # b) sep = a # js_split b sep"
  by (induction a) auto

lemma js_split_not_Nil: "js_split s sep \<noteq> []"
  by (induction s) (auto split: list.splits)

lemma length_js_split: "length (js_split s sep) = Suc (count_list s sep)"
  by (induction s) (auto split: list.splits simp: js_split_not_Nil)

lemma js_split_two_parts: "2 \<le> length (js_split s sep) \<longleftrightarrow> sep \<in> set s"
  using count_list_0_iff [of s sep] by (auto simp: length_js_split Suc_le_eq)

lemma js_split_date:
  assumes "0x2D \<notin> set y" "0x2D \<notin> set m" "0x2D \<notin> set d"
  shows "js_split (y @ 0x2D # m @ 0x2D # d) 0x2D = [y, m, d]"
  using assms by (simp add: js_split_append js_split_no_sep)

lemma split_format_minute:
  assumes "0x2D \<notin> set y" "0x2D \<notin> set m" "0x2D \<notin> set d" "0x3A \<notin> set h" "0x3A \<notin> set mi"
    and "mi \<noteq> []" and sfx: "sfx = [] \<or> hd sfx = 0x3A"
  shows "split_format [y @ 0x2D # m @ 0x2D # d, h @ 0x3A # mi @ sfx] =
           d @ ascii ''/'' @ m @ ascii ''/'' @ y @ ascii '' '' @ h @ ascii '':'' @ mi"
proof -
  have time: "\<exists>ps. js_split (h @ 0x3A # mi @ sfx) 0x3A = h # mi # ps"
  proof (cases sfx)
    case Nil
    then show ?thesis using assms by (simp add: js_split_append js_split_no_sep)
  next
    case (Cons c cs)
    then have "sfx = 0x3A # cs" using sfx by simp
    then show ?thesis using assms by (simp add: js_split_append)
  qed
  then obtain ps where "js_split (h @ 0x3A # mi @ sfx) 0x3A = h # mi # ps" by blast
  then show ?thesis
    using assms js_split_date [OF assms(1-3)]
    by (simp add: split_format_def at_index_def template_text_def or_default_def)
qed

lemma split_format_hour_only:
  assumes "0x2D \<notin> set y" "0x2D \<notin> set m" "0x2D \<notin> set d" "0x3A \<notin> set h"
  shows "split_format [y @ 0x2D # m @ 0x2D # d, h] =
           d @ ascii ''/'' @ m @ ascii ''/'' @ y @ ascii '' '' @ h @ ascii '':00''"
  using assms js_split_date [OF assms(1-3)]
  by (simp add: split_format_def at_index_def template_text_def or_default_def
      js_split_no_sep ascii_def)

lemma formatDateTimeLocal_split:
  assumes "0x54 \<notin> set date"
  shows "formatDateTimeLocal eng (JStr (date @ 0x54 # rest)) =
           Inr (split_format (date # js_split rest 0x54))"
proof -
  have "js_split (date @ 0x54 # rest) 0x54 = date # js_split rest 0x54"
    using assms by (rule js_split_append)
  moreover have "2 \<le> length (date # js_split rest 0x54)"
    using js_split_not_Nil [of rest "0x54"] by (cases "js_split rest 0x54") auto
  ultimately show ?thesis
    by (simp add: formatDateTimeLocal_def truthy_def Let_def)
qed

lemma split_format_first_two: "split_format (a # b # c # sfx) = split_format [a, b]"
  by (simp add: split_format_def)

lemma formatDateTimeLocal_two_parts:
  assumes "0x54 \<notin> set date" "0x54 \<notin> set time"
  shows "formatDateTimeLocal eng (JStr (date @ 0x54 # time)) = Inr (split_format [date, time])"
    and "formatDateTimeLocal eng (JStr (date @ 0x54 # time @ 0x54 # rest)) =
           Inr (split_format [date, time])"
proof -
  show "formatDateTimeLocal eng (JStr (date @ 0x54 # time)) = Inr (split_format [date, time])"
    using assms by (simp add: formatDateTimeLocal_split js_split_no_sep)
  have "js_split (time @ 0x54 # rest) 0x54 = time # js_split rest 0x54"
    using assms(2) by (rule js_split_append)
  moreover obtain p ps where "js_split rest 0x54 = p # ps"
    using js_split_not_Nil [of rest "0x54"] by (cases "js_split rest 0x54") auto
  ultimately show "formatDateTimeLocal eng (JStr (date @ 0x54 # time @ 0x54 # rest)) =
      Inr (split_format [date, time])"
    using assms(1) by (simp add: formatDateTimeLocal_split split_format_first_two)
qed

lemma formatDateTimeLocal_generic:
  assumes "s \<noteq> []" "0x54 \<notin> set s"
  shows "formatDateTimeLocal eng (JStr s) =
           Inr (case locale_parse eng s of None \<Rightarrow> ascii ''Invalid Date'' | Some t \<Rightarrow> t)"
  using assms
  by (simp add: formatDateTimeLocal_def truthy_def js_split_no_sep Date_toLocaleString_def
      split: option.splits)

lemma formatDateTimeLocal_total: "\<exists>out. formatDateTimeLocal eng (JStr s) = Inr out"
  by (simp add: formatDateTimeLocal_def Date_toLocaleString_def Let_def truthy_def
      split: option.splits)

text \<open>
  Claim C3, as the specification states it, fails: the formatter takes the split branch
  for every input with at least two parts, not only for exactly two. With a third part
  the input does not have the shape of the claim, and yet the result is the reformatted
  text, neither a generic parse nor the input itself.
\<close>

theorem C3_three_parts_counterexample:
  "formatDateTimeLocal sample_engine (JStr (ascii ''2025-11-10T14:30T99'')) =
     Inr (ascii ''10/11/2025 14:30'')
   \<and> spec_formatTimestamp sample_engine (ascii ''2025-11-10T14:30T99'') =
       ascii ''2025-11-10T14:30T99''
   \<and> formatDateTimeLocal sample_engine (JStr (ascii ''2025-11-10T14:30T99'')) \<noteq>
       Inr (spec_formatTimestamp sample_engine (ascii ''2025-11-10T14:30T99''))"
  by code_simp

text \<open>
  Claim C3, amended. An empty or absent input gives the current local date and time in
  locale format. An input with at least one \<open>T\<close> is formatted from its first two parts,
  whatever follows a second \<open>T\<close>: when the first part is year-month-day and the second
  starts with hour and a non-empty minute, the result is day/month/year, a space, and
  hour:minute, the seconds being dropped; with the hour alone the minute is \<open>00\<close>. An
  input without \<open>T\<close> that the generic parser accepts gives that date in locale format.
  On every string, whatever its shape and whether the parser accepts it or not, the
  formatter returns a text and raises nothing. (Which text an input without \<open>T\<close> gives
  when the parser rejects it is not part of the amended claim.)
\<close>

theorem C3_formatDateTimeLocal:
  "formatDateTimeLocal eng JUndefined = Inr (locale_now eng)
   \<and> formatDateTimeLocal eng (JStr []) = Inr (locale_now eng)
   \<and> (0x54 \<notin> set date \<and> 0x54 \<notin> set time \<longrightarrow>
        formatDateTimeLocal eng (JStr (date @ 0x54 # time)) = Inr (split_format [date, time])
        \<and> formatDateTimeLocal eng (JStr (date @ 0x54 # time @ 0x54 # rest)) =
            Inr (split_format [date, time]))
   \<and> (0x2D \<notin> set y \<and> 0x2D \<notin> set m \<and> 0x2D \<notin> set d \<and> 0x3A \<notin> set h \<and> 0x3A \<notin> set mi
        \<and> mi \<noteq> [] \<longrightarrow>
        split_format [y @ 0x2D # m @ 0x2D # d, h @ 0x3A # mi] =
          d @ ascii ''/'' @ m @ ascii ''/'' @ y @ ascii '' '' @ h @ ascii '':'' @ mi
        \<and> split_format [y @ 0x2D # m @ 0x2D # d, h @ 0x3A # mi @ 0x3A # sec] =
            d @ ascii ''/'' @ m @ ascii ''/'' @ y @ ascii '' '' @ h @ ascii '':'' @ mi
        \<and> split_format [y @ 0x2D # m @ 0x2D # d, h] =
            d @ ascii ''/'' @ m @ ascii ''/'' @ y @ ascii '' '' @ h @ ascii '':00'')
   \<and> (s \<noteq> [] \<and> 0x54 \<notin> set s \<and> locale_parse eng s = Some t \<longrightarrow>
        formatDateTimeLocal eng (JStr s) = Inr t)
   \<and> (\<exists>out. formatDateTimeLocal eng (JStr input) = Inr out)
   \<and> formatDateTimeLocal eng JNull = Inr (locale_now eng)"
proof -
  have absent: "formatDateTimeLocal eng JUndefined = Inr (locale_now eng)"
    and empty: "formatDateTimeLocal eng (JStr []) = Inr (locale_now eng)"
    by (simp_all add: formatDateTimeLocal_def truthy_def)
  have parts: "0x54 \<notin> set date \<and> 0x54 \<notin> set time \<longrightarrow>
        formatDateTimeLocal eng (JStr (date @ 0x54 # time)) = Inr (split_format [date, time])
        \<and> formatDateTimeLocal eng (JStr (date @ 0x54 # time @ 0x54 # rest)) =
            Inr (split_format [date, time])"
    using formatDateTimeLocal_two_parts by blast
  have fields: "0x2D \<notin> set y \<and> 0x2D \<notin> set m \<and> 0x2D \<notin> set d \<and> 0x3A \<notin> set h \<and> 0x3A \<notin> set mi
        \<and> mi \<noteq> [] \<longrightarrow>
        split_format [y @ 0x2D # m @ 0x2D # d, h @ 0x3A # mi] =
          d @ ascii ''/'' @ m @ ascii ''/'' @ y @ ascii '' '' @ h @ ascii '':'' @ mi
        \<and> split_format [y @ 0x2D # m @ 0x2D # d, h @ 0x3A # mi @ 0x3A # sec] =
            d @ ascii ''/'' @ m @ ascii ''/'' @ y @ ascii '' '' @ h @ ascii '':'' @ mi
        \<and> split_format [y @ 0x2D # m @ 0x2D # d, h] =
            d @ ascii ''/'' @ m @ ascii ''/'' @ y @ ascii '' '' @ h @ ascii '':00''"
  proof (intro impI conjI)
    assume a: "0x2D \<notin> set y \<and> 0x2D \<notin> set m \<and> 0x2D \<notin> set d \<and> 0x3A \<notin> set h
      \<and> 0x3A \<notin> set mi \<and> mi \<noteq> []"
    show "split_format [y @ 0x2D # m @ 0x2D # d, h @ 0x3A # mi] =
          d @ ascii ''/'' @ m @ ascii ''/'' @ y @ ascii '' '' @ h @ ascii '':'' @ mi"
      using a split_format_minute [of y m d h mi "[]"] by simp
    show "split_format [y @ 0x2D # m @ 0x2D # d, h @ 0x3A # mi @ 0x3A # sec] =
          d @ ascii ''/'' @ m @ ascii ''/'' @ y @ ascii '' '' @ h @ ascii '':'' @ mi"
      using a split_format_minute [of y m d h mi "0x3A # sec"] by simp
    show "split_format [y @ 0x2D # m @ 0x2D # d, h] =
          d @ ascii ''/'' @ m @ ascii ''/'' @ y @ ascii '' '' @ h @ ascii '':00''"
      using a split_format_hour_only [of y m d h] by simp
  qed
  have generic: "s \<noteq> [] \<and> 0x54 \<notin> set s \<and> locale_parse eng s = Some t \<longrightarrow>
        formatDateTimeLocal eng (JStr s) = Inr t"
    by (simp add: formatDateTimeLocal_generic)
  have total: "\<exists>out. formatDateTimeLocal eng (JStr input) = Inr out"
    by (rule formatDateTimeLocal_total)
  have null: "formatDateTimeLocal eng JNull = Inr (locale_now eng)"
    by (simp add: formatDateTimeLocal_def truthy_def)
  show ?thesis
    by (intro conjI absent empty parts fields generic total null)
qed

theorem C3_formatDateTimeLocal_witness:
  "formatDateTimeLocal (sample_engine\<lparr>locale_parse := (\<lambda>s. Some (ascii ''09/11/2025, 21:00:00''))\<rparr>)
     (JStr (ascii ''2025-11-10T14:30'')) = Inr (ascii ''10/11/2025 14:30'')
   \<and> formatDateTimeLocal (sample_engine\<lparr>locale_parse := (\<lambda>s. Some (ascii ''09/11/2025, 21:00:00''))\<rparr>)
     (JStr (ascii ''2025-11-10T14:30T99'')) = Inr (ascii ''10/11/2025 14:30'')
   \<and> split_format [ascii ''2025-11-10'', ascii ''14:30:45''] = ascii ''10/11/2025 14:30''
   \<and> split_format [ascii ''2025-11-10'', ascii ''14''] = ascii ''10/11/2025 14:00''
   \<and> formatDateTimeLocal (sample_engine\<lparr>locale_parse := (\<lambda>s. Some (ascii ''09/11/2025, 21:00:00''))\<rparr>)
     (JStr (ascii ''2025-11-10'')) = Inr (ascii ''09/11/2025, 21:00:00'')
   \<and> locale_parse sample_engine (ascii ''not-a-date'') = None
   \<and> (\<exists>out. formatDateTimeLocal sample_engine (JStr (ascii ''not-a-date'')) = Inr out)"
proof -
  let ?eng = "sample_engine\<lparr>locale_parse := (\<lambda>s. Some (ascii ''09/11/2025, 21:00:00''))\<rparr>"
  have parts: "0x54 \<notin> set (ascii ''2025-11-10'') \<and> 0x54 \<notin> set (ascii ''14:30'')"
    by (simp add: ascii_def)
  have fields: "0x2D \<notin> set (ascii ''2025'') \<and> 0x2D \<notin> set (ascii ''11'')
      \<and> 0x2D \<notin> set (ascii ''10'') \<and> 0x3A \<notin> set (ascii ''14'') \<and> 0x3A \<notin> set (ascii ''30'')
      \<and> ascii ''30'' \<noteq> []"
    by (simp add: ascii_def)
  have generic: "ascii ''2025-11-10'' \<noteq> [] \<and> 0x54 \<notin> set (ascii ''2025-11-10'')
      \<and> locale_parse ?eng (ascii ''2025-11-10'') = Some (ascii ''09/11/2025, 21:00:00'')"
    by (simp add: ascii_def)
  have "formatDateTimeLocal ?eng (JStr (ascii ''2025-11-10'' @ 0x54 # ascii ''14:30'')) =
          Inr (split_format [ascii ''2025-11-10'', ascii ''14:30''])
        \<and> formatDateTimeLocal ?eng
            (JStr (ascii ''2025-11-10'' @ 0x54 # ascii ''14:30'' @ 0x54 # ascii ''99'')) =
          Inr (split_format [ascii ''2025-11-10'', ascii ''14:30''])
        \<and> split_format [ascii ''2025'' @ 0x2D # ascii ''11'' @ 0x2D # ascii ''10'',
                          ascii ''14'' @ 0x3A # ascii ''30''] =
            ascii ''10'' @ ascii ''/'' @ ascii ''11'' @ ascii ''/'' @ ascii ''2025'' @ ascii '' ''
            @ ascii ''14'' @ ascii '':'' @ ascii ''30''
        \<and> split_format [ascii ''2025'' @ 0x2D # ascii ''11'' @ 0x2D # ascii ''10'',
                          ascii ''14'' @ 0x3A # ascii ''30'' @ 0x3A # ascii ''45''] =
            ascii ''10'' @ ascii ''/'' @ ascii ''11'' @ ascii ''/'' @ ascii ''2025'' @ ascii '' ''
            @ ascii ''14'' @ ascii '':'' @ ascii ''30''
        \<and> split_format [ascii ''2025'' @ 0x2D # ascii ''11'' @ 0x2D # ascii ''10'', ascii ''14''] =
            ascii ''10'' @ ascii ''/'' @ ascii ''11'' @ ascii ''/'' @ ascii ''2025'' @ ascii '' ''
            @ ascii ''14'' @ ascii '':00''
        \<and> formatDateTimeLocal ?eng (JStr (ascii ''2025-11-10'')) =
            Inr (ascii ''09/11/2025, 21:00:00'')"
    using parts fields generic
      C3_formatDateTimeLocal [where eng = ?eng and date = "ascii ''2025-11-10''"
        and time = "ascii ''14:30''" and rest = "ascii ''99''" and y = "ascii ''2025''"
        and m = "ascii ''11''" and d = "ascii ''10''" and h = "ascii ''14''"
        and mi = "ascii ''30''" and sec = "ascii ''45''" and s = "ascii ''2025-11-10''"
        and t = "ascii ''09/11/2025, 21:00:00''"]
    by blast
  then have shapes:
    "formatDateTimeLocal ?eng (JStr (ascii ''2025-11-10T14:30'')) = Inr (ascii ''10/11/2025 14:30'')
     \<and> formatDateTimeLocal ?eng (JStr (ascii ''2025-11-10T14:30T99'')) =
         Inr (ascii ''10/11/2025 14:30'')
     \<and> split_format [ascii ''2025-11-10'', ascii ''14:30:45''] = ascii ''10/11/2025 14:30''
     \<and> split_format [ascii ''2025-11-10'', ascii ''14''] = ascii ''10/11/2025 14:00''
     \<and> formatDateTimeLocal ?eng (JStr (ascii ''2025-11-10'')) =
         Inr (ascii ''09/11/2025, 21:00:00'')"
    by (simp add: ascii_def)
  have rejected: "locale_parse sample_engine (ascii ''not-a-date'') = None"
    by (simp add: sample_engine_def)
  have returns: "\<exists>out. formatDateTimeLocal sample_engine (JStr (ascii ''not-a-date'')) = Inr out"
    by (rule C3_formatDateTimeLocal
        [where eng = sample_engine and input = "ascii ''not-a-date''",
          THEN conjunct2, THEN conjunct2, THEN conjunct2, THEN conjunct2, THEN conjunct2,
          THEN conjunct1])
  show ?thesis
    using shapes rejected returns by (intro conjI) simp_all
qed

section \<open>Properties of the Coordinate Resolver and the Weather Fetcher\<close>

lemma trim_empty_iff: "trim s = [] \<longleftrightarrow> list_all js_whitespace s"
proof (cases "dropWhile js_whitespace s = []")
  case True
  have "trim s = []"
    unfolding trim_def True by simp
  moreover have "list_all js_whitespace s"
    using True by (simp add: list_all_iff dropWhile_eq_Nil_conv)
  ultimately show ?thesis by simp
next
  case False
  then have "\<not> js_whitespace (hd (dropWhile js_whitespace s))"
    by (rule hd_dropWhile)
  moreover have "hd (dropWhile js_whitespace s) \<in> set (dropWhile js_whitespace s)"
    using False by simp
  ultimately have "trim s \<noteq> []"
    by (auto simp: trim_def dropWhile_eq_Nil_conv)
  moreover have "\<not> list_all js_whitespace s"
    using False by (simp add: list_all_iff dropWhile_eq_Nil_conv)
  ultimately show ?thesis by simp
qed

lemma blank_iff: "cityName = [] \<or> trim cityName = [] \<longleftrightarrow> list_all js_whitespace cityName"
  by (auto simp: trim_empty_iff)

lemma getCityCoordinates_blank:
  "list_all js_whitespace cityName \<Longrightarrow>
     getCityCoordinates eng net cityName = (Inl name_required, net)"
  using blank_iff [of cityName] by (simp add: getCityCoordinates_def)

lemma getCityCoordinates_malformed:
  "\<not> list_all js_whitespace cityName \<Longrightarrow> None \<in> set (code_points cityName) \<Longrightarrow>
     getCityCoordinates eng net cityName = (Inl (JsError URIError (uri_error_text eng)), net)"
  using blank_iff [of cityName]
  by (simp add: getCityCoordinates_def encodeURIComponent_def)

lemma encodeURIComponent_well_formed:
  "None \<notin> set (code_points s) \<Longrightarrow> \<exists>encoded. encodeURIComponent eng s = Inr encoded"
  by (simp add: encodeURIComponent_def)

lemma getCityCoordinates_request:
  assumes "\<not> list_all js_whitespace cityName" "encodeURIComponent eng cityName = Inr encoded"
  shows "getCityCoordinates eng net cityName =
           (case fst (fetch net (geocoding_url encoded)) of
              Rejected e \<Rightarrow> Inl e
            | Response status body \<Rightarrow>
                if \<not> ok status then Inl geocoding_failed
                else (case body of Inl e \<Rightarrow> Inl e | Inr data \<Rightarrow> read_coordinates eng data),
            net\<lparr>requests := requests net @ [geocoding_url encoded]\<rparr>)"
  using assms blank_iff [of cityName]
  by (simp add: getCityCoordinates_def fetch_def split: fetch_result.splits sum.splits)

lemma getWeatherData_request:
  assumes "weather_url eng latitude longitude = Inr url"
  shows "getWeatherData eng net latitude longitude =
     (case fst (fetch net url) of
        Rejected e \<Rightarrow> Inl e
      | Response status body \<Rightarrow>
          if \<not> ok status then Inl weather_failed
          else (case body of
                  Inl e \<Rightarrow> Inl e
                | Inr data \<Rightarrow>
                    and_then (get_member eng data (ascii ''current_weather''))
                      (\<lambda>current_weather.
                         Inr (if truthy current_weather then current_weather else JNull))),
      net\<lparr>requests := requests net @ [url]\<rparr>)"
  using assms
  by (simp add: getWeatherData_def fetch_def split: fetch_result.splits sum.splits)

lemma getWeatherData_unsent:
  "weather_url eng latitude longitude = Inl e \<Longrightarrow>
     getWeatherData eng net latitude longitude = (Inl e, net)"
  by (simp add: getWeatherData_def)

lemma weather_url_numbers:
  "\<exists>url. weather_url eng (JNum x) (JNum y) = Inr url"
  by (simp add: weather_url_def and_then_def)

lemma to_text_object:
  "map_of members (ascii ''toString'') = Some v \<Longrightarrow>
     to_text eng (JObj members) = Inl (JsError TypeError (convert_error_text eng))"
  by simp

lemma read_coordinates_object:
  "read_coordinates eng (JObj members) =
     (case map_of members (ascii ''results'') of
        None \<Rightarrow> Inl city_not_found
      | Some results \<Rightarrow>
          if \<not> truthy results then Inl city_not_found
          else if member_value results (ascii ''length'') = JNum 0 then Inl city_not_found
          else and_then (get_first eng results) (\<lambda>r.
                 and_then (get_member eng r (ascii ''latitude'')) (\<lambda>latitude.
                 and_then (get_member eng r (ascii ''longitude'')) (\<lambda>longitude.
                 and_then (get_member eng r (ascii ''name'')) (\<lambda>name.
                 and_then (get_member eng r (ascii ''country'')) (\<lambda>country.
                   Inr \<lparr>lat = latitude, lon = longitude, name = name, country = country\<rparr>))))))"
  by (auto simp: read_coordinates_def get_member_def and_then_def member_value_def truthy_def
      split: option.splits)

lemma read_coordinates_no_results:
  assumes "map_of members (ascii ''results'') = None
           \<or> map_of members (ascii ''results'') = Some (JArr [])"
  shows "read_coordinates eng (JObj members) = Inl city_not_found"
  using assms by (auto simp: read_coordinates_object truthy_def member_value_def)

lemma read_coordinates_first:
  assumes "map_of members (ascii ''results'') = Some (JArr (r # rs))"
  shows "read_coordinates eng (JObj members) =
           (if r = JNull \<or> r = JUndefined then Inl (JsError TypeError (type_error_text eng))
            else Inr \<lparr>lat = member_value r (ascii ''latitude''),
                      lon = member_value r (ascii ''longitude''),
                      name = member_value r (ascii ''name''),
                      country = member_value r (ascii ''country'')\<rparr>)"
proof -
  have len: "member_value (JArr (r # rs)) (ascii ''length'') \<noteq> JNum 0"
    by (simp add: member_value_def)
  have first: "get_first eng (JArr (r # rs)) = Inr r"
    by (simp add: get_first_def first_value_def)
  show ?thesis
    using assms len first
    by (auto simp: read_coordinates_object truthy_def and_then_def get_member_def)
qed

lemma read_coordinates_not_found:
  assumes "data \<noteq> JNull" and "data \<noteq> JUndefined"
    and "member_value data (ascii ''results'') = JUndefined
         \<or> member_value data (ascii ''results'') = JArr []"
  shows "read_coordinates eng data = Inl city_not_found"
  using assms
  by (auto simp: read_coordinates_def get_member_def and_then_def truthy_def member_value_def)

lemma current_weather_read:
  assumes "data \<noteq> JNull" and "data \<noteq> JUndefined"
  shows "and_then (get_member eng data (ascii ''current_weather''))
           (\<lambda>current_weather. Inr (if truthy current_weather then current_weather else JNull)) =
         Inr (if truthy (member_value data (ascii ''current_weather''))
              then member_value data (ascii ''current_weather'') else JNull)"
  using assms by (simp add: get_member_def and_then_def)
lemma fetch_answering_first: "fst (fetch (answering (r # rs)) url) = r"
  by (simp add: fetch_def answering_def)

lemma sample_name_not_blank: "\<not> list_all js_whitespace (ascii ''Lisboa'')"
  by (simp add: ascii_def js_whitespace_def)

lemma sample_name_encoded: "encodeURIComponent sample_engine (ascii ''Lisboa'') = Inr (ascii ''Lisboa'')"
  by code_simp

text \<open>
  Claim C5, as the specification states it, fails in its second half: a name that is not
  blank but holds a surrogate code unit without its partner makes \<open>encodeURIComponent\<close>
  raise before \<open>fetch\<close> is reached, so no request is issued for it.
\<close>

theorem C5_lone_surrogate_counterexample:
  "[0xD800] \<noteq> [] \<and> \<not> list_all js_whitespace [0xD800]
   \<and> fst (getCityCoordinates sample_engine (answering []) [0xD800]) =
       Inl (JsError URIError (ascii ''URI malformed''))
   \<and> requests (snd (getCityCoordinates sample_engine (answering []) [0xD800])) = []"
  by code_simp

text \<open>
  Claim C5, amended. For a name that is empty or consists only of white space,
  getCityCoordinates fails with the empty-name validation error and the network is left
  as it was (no request). For every other name that is well-formed UTF-16 it issues
  exactly one request, the geocoding request for the encoded name. For a name that is not
  blank and is not well-formed UTF-16 it fails with the URIError of the encoding and
  issues no request.
\<close>

theorem C5_validation_before_request:
  "(list_all js_whitespace cityName \<longrightarrow>
      getCityCoordinates eng net cityName = (Inl name_required, net)
      \<and> name_required =
          JsError Error
            (ascii ''Nome da cidade '' @ [0xE9] @ ascii '' obrigat'' @ [0xF3] @ ascii ''rio''))
   \<and> (\<not> list_all js_whitespace cityName \<and> None \<notin> set (code_points cityName) \<longrightarrow>
        (\<exists>encoded. encodeURIComponent eng cityName = Inr encoded
           \<and> requests (snd (getCityCoordinates eng net cityName)) =
               requests net @ [geocoding_url encoded]))
   \<and> (\<not> list_all js_whitespace cityName \<and> None \<in> set (code_points cityName) \<longrightarrow>
        getCityCoordinates eng net cityName =
          (Inl (JsError URIError (uri_error_text eng)), net))"
proof (intro conjI impI)
  assume "list_all js_whitespace cityName"
  then show "getCityCoordinates eng net cityName = (Inl name_required, net)"
    by (rule getCityCoordinates_blank)
next
  show "name_required =
          JsError Error
            (ascii ''Nome da cidade '' @ [0xE9] @ ascii '' obrigat'' @ [0xF3] @ ascii ''rio'')"
    by (simp add: name_required_def)
next
  assume a: "\<not> list_all js_whitespace cityName \<and> None \<notin> set (code_points cityName)"
  then obtain encoded where e: "encodeURIComponent eng cityName = Inr encoded"
    using encodeURIComponent_well_formed by blast
  have "requests (snd (getCityCoordinates eng net cityName)) =
          requests net @ [geocoding_url encoded]"
    using a e by (simp add: getCityCoordinates_request)
  then show "\<exists>encoded. encodeURIComponent eng cityName = Inr encoded
           \<and> requests (snd (getCityCoordinates eng net cityName)) =
               requests net @ [geocoding_url encoded]"
    using e by blast
next
  assume "\<not> list_all js_whitespace cityName \<and> None \<in> set (code_points cityName)"
  then show "getCityCoordinates eng net cityName =
          (Inl (JsError URIError (uri_error_text eng)), net)"
    by (simp add: getCityCoordinates_malformed)
qed

theorem C5_validation_before_request_witness:
  "getCityCoordinates sample_engine (answering []) (ascii ''   '') =
     (Inl name_required, answering [])
   \<and> getCityCoordinates sample_engine (answering []) [] = (Inl name_required, answering [])
   \<and> requests (snd (getCityCoordinates sample_engine (answering []) (ascii ''Lisboa''))) =
       [geocoding_url (ascii ''Lisboa'')]
   \<and> getCityCoordinates sample_engine (answering []) [0xD800] =
       (Inl (JsError URIError (uri_error_text sample_engine)), answering [])"
proof -
  have blank: "list_all js_whitespace (ascii ''   '')" "list_all js_whitespace []"
    by (simp_all add: ascii_def js_whitespace_def)
  have well: "None \<notin> set (code_points (ascii ''Lisboa''))"
    by code_simp
  have lone: "\<not> list_all js_whitespace [0xD800] \<and> None \<in> set (code_points [0xD800])"
    by (simp add: js_whitespace_def high_surrogate_def)
  have none: "requests (answering []) = []"
    by (simp add: answering_def)
  obtain encoded where
    "encodeURIComponent sample_engine (ascii ''Lisboa'') = Inr encoded"
    "requests (snd (getCityCoordinates sample_engine (answering []) (ascii ''Lisboa''))) =
       requests (answering []) @ [geocoding_url encoded]"
    using C5_validation_before_request
      [of "ascii ''Lisboa''" sample_engine "answering []"] sample_name_not_blank well
    by blast
  then have one: "requests (snd (getCityCoordinates sample_engine (answering [])
      (ascii ''Lisboa''))) = [geocoding_url (ascii ''Lisboa'')]"
    using sample_name_encoded none by simp
  show ?thesis
    using blank lone one
      C5_validation_before_request [of "ascii ''   ''" sample_engine "answering []"]
      C5_validation_before_request [of "[]" sample_engine "answering []"]
      C5_validation_before_request [of "[0xD800]" sample_engine "answering []"]
    by blast
qed

text \<open>
  Claim C6, as the specification states it, fails: a 2xx answer whose body is the JSON
  value \<open>null\<close> has no \<open>results\<close> key, and on it the read \<open>data.results\<close> raises a
  TypeError, which is not the not-found error.
\<close>

theorem C6_null_body_counterexample:
  "ok 200
   \<and> fst (getCityCoordinates sample_engine (answering [Response 200 (Inr JNull)])
            (ascii ''Lisboa'')) =
       Inl (JsError TypeError (ascii ''Cannot read properties''))
   \<and> fst (getCityCoordinates sample_engine (answering [Response 200 (Inr JNull)])
            (ascii ''Lisboa'')) \<noteq>
       Inl (JsError Error (ascii ''Cidade n'' @ [0xE3] @ ascii ''o encontrada''))"
  by code_simp

text \<open>
  Claim C6, amended. When the geocoding request is answered with a 2xx status and a body
  that is any JSON value other than \<open>null\<close>, and the body has no \<open>results\<close> member or
  an empty \<open>results\<close> array, getCityCoordinates fails with the not-found error
  \<open>Cidade nao encontrada\<close> (with a tilde on the first a of the second word). The read
  of a member an object does not have yields \<open>undefined\<close>; a parsed body is never
  \<open>undefined\<close> itself.
\<close>

theorem C6_no_match_is_not_found:
  assumes "\<not> list_all js_whitespace cityName"
    and "encodeURIComponent eng cityName = Inr encoded"
    and "fst (fetch net (geocoding_url encoded)) = Response status (Inr data)"
    and "ok status"
    and "data \<noteq> JNull" and "data \<noteq> JUndefined"
    and "member_value data (ascii ''results'') = JUndefined
         \<or> member_value data (ascii ''results'') = JArr []"
  shows "fst (getCityCoordinates eng net cityName) =
           Inl (JsError Error (ascii ''Cidade n'' @ [0xE3] @ ascii ''o encontrada''))
         \<and> member_value (JObj entries) (ascii ''results'') =
             (case map_of entries (ascii ''results'') of None \<Rightarrow> JUndefined | Some v \<Rightarrow> v)"
  using assms
  by (simp add: getCityCoordinates_request read_coordinates_not_found city_not_found_def
      member_value_def)

theorem C6_no_match_is_not_found_witness:
  "fst (getCityCoordinates sample_engine (answering [Response 200 (Inr (JObj []))])
         (ascii ''Lisboa'')) =
     Inl (JsError Error (ascii ''Cidade n'' @ [0xE3] @ ascii ''o encontrada''))
   \<and> fst (getCityCoordinates sample_engine
            (answering [Response 204 (Inr (JObj [(ascii ''results'', JArr [])]))])
            (ascii ''Lisboa'')) =
       Inl (JsError Error (ascii ''Cidade n'' @ [0xE3] @ ascii ''o encontrada''))
   \<and> fst (getCityCoordinates sample_engine (answering [Response 200 (Inr (JNum 7))])
            (ascii ''Lisboa'')) =
       Inl (JsError Error (ascii ''Cidade n'' @ [0xE3] @ ascii ''o encontrada''))"
proof -
  have ok: "ok 200" "ok 204"
    by (simp_all add: ok_def)
  have absent: "member_value (JObj []) (ascii ''results'') = JUndefined
      \<or> member_value (JObj []) (ascii ''results'') = JArr []"
    by (simp add: member_value_def)
  have empty:
    "member_value (JObj [(ascii ''results'', JArr [])]) (ascii ''results'') = JUndefined
     \<or> member_value (JObj [(ascii ''results'', JArr [])]) (ascii ''results'') = JArr []"
    by (simp add: member_value_def)
  have number: "member_value (JNum 7) (ascii ''results'') = JUndefined
      \<or> member_value (JNum 7) (ascii ''results'') = JArr []"
    by (simp add: member_value_def)
  have d1: "JObj [] \<noteq> JNull" "JObj [] \<noteq> JUndefined"
    and d2: "JObj [(ascii ''results'', JArr [])] \<noteq> JNull"
      "JObj [(ascii ''results'', JArr [])] \<noteq> JUndefined"
    and d3: "JNum 7 \<noteq> JNull" "JNum 7 \<noteq> JUndefined"
    by simp_all
  show ?thesis
    using C6_no_match_is_not_found
        [OF sample_name_not_blank sample_name_encoded fetch_answering_first ok(1) d1 absent]
      C6_no_match_is_not_found
        [OF sample_name_not_blank sample_name_encoded fetch_answering_first ok(2) d2 empty]
      C6_no_match_is_not_found
        [OF sample_name_not_blank sample_name_encoded fetch_answering_first ok(1) d3 number]
    by blast
qed

text \<open>
  Claim C7. When the request is answered with a status outside 200 to 299,
  getCityCoordinates fails with the fixed text \<open>Erro ao buscar coordenadas da cidade\<close>
  and getWeatherData with the fixed text \<open>Erro ao buscar dados do clima\<close>, whatever the
  status and the body are. A response presupposes a request: getWeatherData sends one
  exactly when its two arguments convert to strings, to the address built from them;
  when a conversion raises, it raises that error and the network is left as it was, so
  there is no response whose status could matter.
\<close>

theorem C7_upstream_failure_fixed_text:
  "(\<not> list_all js_whitespace cityName \<and> encodeURIComponent eng cityName = Inr encoded
      \<and> fst (fetch net (geocoding_url encoded)) = Response status body \<and> \<not> ok status \<longrightarrow>
      fst (getCityCoordinates eng net cityName) =
        Inl (JsError Error (ascii ''Erro ao buscar coordenadas da cidade'')))
   \<and> (weather_url eng latitude longitude = Inr url
        \<and> fst (fetch net' url) = Response status' body' \<and> \<not> ok status' \<longrightarrow>
        getWeatherData eng net' latitude longitude =
          (Inl (JsError Error (ascii ''Erro ao buscar dados do clima'')),
           net'\<lparr>requests := requests net' @ [url]\<rparr>))
   \<and> (weather_url eng latitude longitude = Inl e \<longrightarrow>
        getWeatherData eng net' latitude longitude = (Inl e, net'))
   \<and> (\<exists>address. weather_url eng (JNum x) (JNum y) = Inr address)"
  by (simp add: getCityCoordinates_request getWeatherData_request getWeatherData_unsent
      weather_url_numbers geocoding_failed_def weather_failed_def)

theorem C7_upstream_failure_fixed_text_witness:
  "fst (getCityCoordinates sample_engine
          (answering [Response 429 (Inr (JObj [(ascii ''message'', JStr (ascii ''Too Many Requests''))]))])
          (ascii ''Lisboa'')) =
     Inl (JsError Error (ascii ''Erro ao buscar coordenadas da cidade''))
   \<and> fst (getCityCoordinates sample_engine (answering [Response 500 (Inr (JObj []))])
            (ascii ''Lisboa'')) =
       Inl (JsError Error (ascii ''Erro ao buscar coordenadas da cidade''))
   \<and> weather_url sample_engine (JNum (- 2355 / 100)) (JNum (- 4663 / 100)) =
       Inr (ascii ''https://api.open-meteo.com/v1/forecast?latitude=-23.55&longitude=-46.63&current_weather=true&timezone=auto'')
   \<and> fst (getWeatherData sample_engine
            (answering [Response 429 (Inr (JObj [(ascii ''message'', JStr (ascii ''Too Many Requests''))]))])
            (JNum (- 2355 / 100)) (JNum (- 4663 / 100))) =
       Inl (JsError Error (ascii ''Erro ao buscar dados do clima''))
   \<and> fst (getWeatherData sample_engine (answering [Response 500 (Inr (JObj []))])
            (JNum (- 2355 / 100)) (JNum (- 4663 / 100))) =
       Inl (JsError Error (ascii ''Erro ao buscar dados do clima''))
   \<and> getWeatherData sample_engine (answering [Response 500 (Inr (JObj []))])
         (JObj [(ascii ''toString'', JNum 1)]) (JNum 1) =
       (Inl (JsError TypeError (ascii ''Cannot convert object to primitive value'')),
        answering [Response 500 (Inr (JObj []))])"
proof -
  let ?busy = "Inr (JObj [(ascii ''message'', JStr (ascii ''Too Many Requests''))])"
  let ?url = "ascii ''https://api.open-meteo.com/v1/forecast?latitude=-23.55&longitude=-46.63&current_weather=true&timezone=auto''"
  have bad: "\<not> ok 429" "\<not> ok 500"
    by (simp_all add: ok_def)
  have url: "weather_url sample_engine (JNum (- 2355 / 100)) (JNum (- 4663 / 100)) = Inr ?url"
    by code_simp
  have raised: "weather_url sample_engine (JObj [(ascii ''toString'', JNum 1)]) (JNum 1) =
      Inl (JsError TypeError (ascii ''Cannot convert object to primitive value''))"
    by code_simp
  have g1: "fst (getCityCoordinates sample_engine (answering [Response 429 ?busy])
      (ascii ''Lisboa'')) = Inl (JsError Error (ascii ''Erro ao buscar coordenadas da cidade''))"
    using bad(1) sample_name_not_blank sample_name_encoded
      C7_upstream_failure_fixed_text
        [where cityName = "ascii ''Lisboa''" and eng = sample_engine
          and encoded = "ascii ''Lisboa''" and net = "answering [Response 429 ?busy]"
          and status = 429 and body = ?busy, THEN conjunct1]
    by (simp add: fetch_answering_first)
  have g2: "fst (getCityCoordinates sample_engine (answering [Response 500 (Inr (JObj []))])
      (ascii ''Lisboa'')) = Inl (JsError Error (ascii ''Erro ao buscar coordenadas da cidade''))"
    using bad(2) sample_name_not_blank sample_name_encoded
      C7_upstream_failure_fixed_text
        [where cityName = "ascii ''Lisboa''" and eng = sample_engine
          and encoded = "ascii ''Lisboa''" and net = "answering [Response 500 (Inr (JObj []))]"
          and status = 500 and body = "Inr (JObj [])", THEN conjunct1]
    by (simp add: fetch_answering_first)
  have w1: "fst (getWeatherData sample_engine (answering [Response 429 ?busy])
      (JNum (- 2355 / 100)) (JNum (- 4663 / 100))) =
      Inl (JsError Error (ascii ''Erro ao buscar dados do clima''))"
    using bad(1) url
      C7_upstream_failure_fixed_text
        [where eng = sample_engine and latitude = "JNum (- 2355 / 100)"
          and longitude = "JNum (- 4663 / 100)" and url = ?url
          and net' = "answering [Response 429 ?busy]" and status' = 429 and body' = ?busy,
          THEN conjunct2, THEN conjunct1]
    by (simp add: fetch_answering_first)
  have w2: "fst (getWeatherData sample_engine (answering [Response 500 (Inr (JObj []))])
      (JNum (- 2355 / 100)) (JNum (- 4663 / 100))) =
      Inl (JsError Error (ascii ''Erro ao buscar dados do clima''))"
    using bad(2) url
      C7_upstream_failure_fixed_text
        [where eng = sample_engine and latitude = "JNum (- 2355 / 100)"
          and longitude = "JNum (- 4663 / 100)" and url = ?url
          and net' = "answering [Response 500 (Inr (JObj []))]" and status' = 500
          and body' = "Inr (JObj [])", THEN conjunct2, THEN conjunct1]
    by (simp add: fetch_answering_first)
  have w3: "getWeatherData sample_engine (answering [Response 500 (Inr (JObj []))])
      (JObj [(ascii ''toString'', JNum 1)]) (JNum 1) =
      (Inl (JsError TypeError (ascii ''Cannot convert object to primitive value'')),
       answering [Response 500 (Inr (JObj []))])"
    using raised
      C7_upstream_failure_fixed_text
        [where eng = sample_engine and latitude = "JObj [(ascii ''toString'', JNum 1)]"
          and longitude = "JNum 1" and e = "JsError TypeError (ascii ''Cannot convert object to primitive value'')"
          and net' = "answering [Response 500 (Inr (JObj []))]",
          THEN conjunct2, THEN conjunct2, THEN conjunct1]
    by simp
  show ?thesis
    using g1 g2 url w1 w2 w3 by (intro conjI)
qed

text \<open>
  Claim C8, as the specification states it, fails: a 2xx answer whose body is the JSON
  value \<open>null\<close> lacks the field \<open>current_weather\<close>, and on it the read
  \<open>data.current_weather\<close> raises a TypeError, where the claim says that the function
  returns \<open>null\<close> and does not throw.
\<close>

theorem C8_null_body_counterexample:
  "ok 200
   \<and> fst (getWeatherData sample_engine (answering [Response 200 (Inr JNull)])
            (JNum (- 2355 / 100)) (JNum (- 4663 / 100))) =
       Inl (JsError TypeError (ascii ''Cannot read properties''))
   \<and> requests (snd (getWeatherData sample_engine (answering [Response 200 (Inr JNull)])
            (JNum (- 2355 / 100)) (JNum (- 4663 / 100)))) =
       [ascii ''https://api.open-meteo.com/v1/forecast?latitude=-23.55&longitude=-46.63&current_weather=true&timezone=auto'']"
  by code_simp

text \<open>
  Claim C8, amended. When the current-weather request is answered with a 2xx status and
  a body that is any JSON value other than \<open>null\<close>, getWeatherData raises nothing: it
  returns \<open>null\<close> when the body has no \<open>current_weather\<close> member, and the record under
  that member, as it is, when the member is there and is a record. (The request is the
  one sent to the address built from the two arguments; the read of a member a value
  does not have yields \<open>undefined\<close>, and a parsed body is never \<open>undefined\<close> itself.)
\<close>

theorem C8_missing_current_weather_is_null:
  assumes "weather_url eng latitude longitude = Inr url"
    and "fst (fetch net url) = Response status (Inr data)"
    and "ok status"
    and "data \<noteq> JNull" and "data \<noteq> JUndefined"
  shows "(member_value data (ascii ''current_weather'') = JUndefined \<longrightarrow>
            fst (getWeatherData eng net latitude longitude) = Inr JNull)
         \<and> (member_value data (ascii ''current_weather'') = JObj observation \<longrightarrow>
              fst (getWeatherData eng net latitude longitude) = Inr (JObj observation))
         \<and> member_value (JObj entries) (ascii ''current_weather'') =
             (case map_of entries (ascii ''current_weather'') of
                None \<Rightarrow> JUndefined | Some v \<Rightarrow> v)"
proof -
  have returned: "fst (getWeatherData eng net latitude longitude) =
      Inr (if truthy (member_value data (ascii ''current_weather''))
           then member_value data (ascii ''current_weather'') else JNull)"
    using assms by (simp add: getWeatherData_request current_weather_read)
  have missing: "member_value data (ascii ''current_weather'') = JUndefined \<longrightarrow>
      fst (getWeatherData eng net latitude longitude) = Inr JNull"
    using returned by (simp add: truthy_def)
  have present: "member_value data (ascii ''current_weather'') = JObj observation \<longrightarrow>
      fst (getWeatherData eng net latitude longitude) = Inr (JObj observation)"
    using returned by (simp add: truthy_def)
  have read: "member_value (JObj entries) (ascii ''current_weather'') =
      (case map_of entries (ascii ''current_weather'') of None \<Rightarrow> JUndefined | Some v \<Rightarrow> v)"
    by (simp add: member_value_def)
  show ?thesis
    by (intro conjI missing present read)
qed

theorem C8_missing_current_weather_is_null_witness:
  "fst (getWeatherData sample_engine
          (answering [Response 200 (Inr (JObj [(ascii ''unexpected'', JBool True)]))])
          (JNum (- 2355 / 100)) (JNum (- 4663 / 100))) = Inr JNull
   \<and> fst (getWeatherData sample_engine (answering [Response 200 (Inr (JArr []))])
            (JNum (- 2355 / 100)) (JNum (- 4663 / 100))) = Inr JNull
   \<and> fst (getWeatherData sample_engine
            (answering [Response 200
               (Inr (JObj [(ascii ''current_weather'', JObj [(ascii ''weathercode'', JNum 63)])]))])
            (JNum (- 2355 / 100)) (JNum (- 4663 / 100))) =
       Inr (JObj [(ascii ''weathercode'', JNum 63)])"
proof -
  let ?url = "ascii ''https://api.open-meteo.com/v1/forecast?latitude=-23.55&longitude=-46.63&current_weather=true&timezone=auto''"
  let ?other = "JObj [(ascii ''unexpected'', JBool True)]"
  let ?full = "JObj [(ascii ''current_weather'', JObj [(ascii ''weathercode'', JNum 63)])]"
  have ok: "ok 200"
    by (simp add: ok_def)
  have url: "weather_url sample_engine (JNum (- 2355 / 100)) (JNum (- 4663 / 100)) = Inr ?url"
    by code_simp
  have absent: "member_value ?other (ascii ''current_weather'') = JUndefined"
    by (simp add: member_value_def ascii_def)
  have array: "member_value (JArr []) (ascii ''current_weather'') = JUndefined"
    by (simp add: member_value_def ascii_def)
  have present:
    "member_value ?full (ascii ''current_weather'') = JObj [(ascii ''weathercode'', JNum 63)]"
    by (simp add: member_value_def)
  have d1: "?other \<noteq> JNull" "?other \<noteq> JUndefined"
    and d2: "JArr [] \<noteq> JNull" "JArr [] \<noteq> JUndefined"
    and d3: "?full \<noteq> JNull" "?full \<noteq> JUndefined"
    by simp_all
  have f1: "fst (fetch (answering [Response 200 (Inr ?other)]) ?url) = Response 200 (Inr ?other)"
    by (rule fetch_answering_first)
  have f2: "fst (fetch (answering [Response 200 (Inr (JArr []))]) ?url) =
      Response 200 (Inr (JArr []))"
    by (rule fetch_answering_first)
  have f3: "fst (fetch (answering [Response 200 (Inr ?full)]) ?url) = Response 200 (Inr ?full)"
    by (rule fetch_answering_first)
  have r1: "fst (getWeatherData sample_engine (answering [Response 200 (Inr ?other)])
      (JNum (- 2355 / 100)) (JNum (- 4663 / 100))) = Inr JNull"
    by (rule C8_missing_current_weather_is_null [OF url f1 ok d1, THEN conjunct1, THEN mp, OF absent])
  have r2: "fst (getWeatherData sample_engine (answering [Response 200 (Inr (JArr []))])
      (JNum (- 2355 / 100)) (JNum (- 4663 / 100))) = Inr JNull"
    by (rule C8_missing_current_weather_is_null [OF url f2 ok d2, THEN conjunct1, THEN mp, OF array])
  have r3: "fst (getWeatherData sample_engine (answering [Response 200 (Inr ?full)])
      (JNum (- 2355 / 100)) (JNum (- 4663 / 100))) = Inr (JObj [(ascii ''weathercode'', JNum 63)])"
    by (rule C8_missing_current_weather_is_null
        [OF url f3 ok d3, THEN conjunct2, THEN conjunct1, THEN mp, OF present])
  show ?thesis
    using r1 r2 r3 by (intro conjI)
qed

text \<open>
  Claim C10, as stated, fails: a non-empty \<open>results\<close> array whose first entry is
  \<open>null\<close> makes the read of the entry's latitude raise a TypeError, so the resolver
  does not succeed for every non-empty array.
\<close>

theorem C10_null_entry_counterexample:
  "ok 200
   \<and> fst (getCityCoordinates sample_engine
            (answering [Response 200 (Inr (JObj [(ascii ''results'', JArr [JNull])]))])
            (ascii ''Lisboa'')) =
       Inl (JsError TypeError (ascii ''Cannot read properties''))"
  by code_simp

text \<open>
  Claim C10, amended. When the geocoding request is answered with a 2xx status and a
  non-empty \<open>results\<close> array whose first entry is not \<open>null\<close>, getCityCoordinates
  succeeds and returns the first entry's latitude, longitude, name and country as
  \<open>lat\<close>, \<open>lon\<close>, \<open>name\<close> and \<open>country\<close>, with no validation: a member the entry
  lacks is returned as \<open>undefined\<close>.
\<close>

theorem C10_first_result_returned:
  assumes "\<not> list_all js_whitespace cityName"
    and "encodeURIComponent eng cityName = Inr encoded"
    and "fst (fetch net (geocoding_url encoded)) = Response status (Inr (JObj members))"
    and "ok status"
    and "map_of members (ascii ''results'') = Some (JArr (r # rs))"
    and "r \<noteq> JNull" and "r \<noteq> JUndefined"
  shows "fst (getCityCoordinates eng net cityName) =
           Inr \<lparr>lat = member_value r (ascii ''latitude''),
                lon = member_value r (ascii ''longitude''),
                name = member_value r (ascii ''name''),
                country = member_value r (ascii ''country'')\<rparr>
         \<and> member_value (JObj entries) key =
             (case map_of entries key of None \<Rightarrow> JUndefined | Some v \<Rightarrow> v)"
  using assms
  by (simp add: getCityCoordinates_request read_coordinates_first member_value_def)

theorem C10_first_result_returned_witness:
  "fst (getCityCoordinates sample_engine (answering [Response 200 (Inr sample_city)])
          (ascii ''Lisboa'')) =
     Inr \<lparr>lat = JNum (- 2355 / 100), lon = JNum (- 4663 / 100),
          name = JStr (ascii ''S'' @ [0xE3] @ ascii ''o Paulo''),
          country = JStr (ascii ''Brazil'')\<rparr>
   \<and> fst (getCityCoordinates sample_engine
            (answering [Response 200
               (Inr (JObj [(ascii ''results'', JArr [JObj [(ascii ''name'', JStr (ascii ''A''))]])]))])
            (ascii ''Lisboa'')) =
       Inr \<lparr>lat = JUndefined, lon = JUndefined, name = JStr (ascii ''A''),
            country = JUndefined\<rparr>"
proof -
  have ok: "ok 200"
    by (simp add: ok_def)
  let ?full = "JObj [(ascii ''latitude'', JNum (- 2355 / 100)),
                     (ascii ''longitude'', JNum (- 4663 / 100)),
                     (ascii ''name'', JStr (ascii ''S'' @ [0xE3] @ ascii ''o Paulo'')),
                     (ascii ''country'', JStr (ascii ''Brazil''))]"
  let ?partial = "JObj [(ascii ''name'', JStr (ascii ''A''))]"
  have city: "sample_city = JObj [(ascii ''results'', JArr [?full])]"
    by (simp add: sample_city_def)
  have r1: "map_of [(ascii ''results'', JArr [?full])] (ascii ''results'') = Some (JArr (?full # []))"
    by simp
  have r2: "map_of [(ascii ''results'', JArr [?partial])] (ascii ''results'') =
      Some (JArr (?partial # []))"
    by simp
  have "fst (getCityCoordinates sample_engine
               (answering [Response 200 (Inr (JObj [(ascii ''results'', JArr [?full])]))])
               (ascii ''Lisboa'')) =
          Inr \<lparr>lat = member_value ?full (ascii ''latitude''),
               lon = member_value ?full (ascii ''longitude''),
               name = member_value ?full (ascii ''name''),
               country = member_value ?full (ascii ''country'')\<rparr>"
    using C10_first_result_returned
      [OF sample_name_not_blank sample_name_encoded fetch_answering_first ok r1]
    by simp
  moreover have "fst (getCityCoordinates sample_engine
               (answering [Response 200 (Inr (JObj [(ascii ''results'', JArr [?partial])]))])
               (ascii ''Lisboa'')) =
          Inr \<lparr>lat = member_value ?partial (ascii ''latitude''),
               lon = member_value ?partial (ascii ''longitude''),
               name = member_value ?partial (ascii ''name''),
               country = member_value ?partial (ascii ''country'')\<rparr>"
    using C10_first_result_returned
      [OF sample_name_not_blank sample_name_encoded fetch_answering_first ok r2]
    by simp
  ultimately show ?thesis
    by (simp add: city member_value_def ascii_def)
qed

section \<open>Properties of the Forecast Fetcher\<close>

lemma get5DayForecast_request:
  assumes "forecast_window eng = Inr (startDate, endDate)"
    and "forecast_url eng latitude longitude startDate endDate = Inr url"
  shows "get5DayForecast eng net latitude longitude =
     (case fst (fetch net url) of
        Rejected e \<Rightarrow> Inl e
      | Response status body \<Rightarrow>
          if \<not> ok status then Inl forecast_failed
          else (case body of
                  Inl e \<Rightarrow> Inl e
                | Inr data \<Rightarrow>
                    and_then (get_member eng data (ascii ''daily''))
                      (\<lambda>daily. Inr (if truthy daily then daily else JNull))),
      net\<lparr>requests := requests net @ [url]\<rparr>)"
  using assms
  by (simp add: get5DayForecast_def fetch_def split: fetch_result.splits sum.splits)

text \<open>
  Claim C4 asks for a window that starts at the local date of the process. The code
  takes the first ten characters of \<open>toISOString()\<close>, which is the UTC date. At 22:00
  local time on 2025-11-10 in a process three hours behind UTC (2025-11-11T01:00:00Z), the
  local date is 2025-11-10 and the window requested is 2025-11-11 to 2025-11-15.
\<close>

theorem C4_window_starts_at_utc_date:
  "time_now sample_engine = 1762822800000
   \<and> local_offset sample_engine = - 10800000
   \<and> toISOString sample_engine (time_now sample_engine) = Inr (ascii ''2025-11-11T01:00:00.000Z'')
   \<and> local_date_text sample_engine = ascii ''2025-11-10''
   \<and> forecast_window sample_engine = Inr (ascii ''2025-11-11'', ascii ''2025-11-15'')"
  by code_simp

section \<open>Properties of the Orchestrator\<close>

lemma submit_after_weather:
  assumes "trim input \<noteq> []"
    and "getCityCoordinates eng net (trim input) = (Inr cityData, net1)"
    and "getWeatherData eng net1 (lat cityData) (lon cityData) = (Inr weather, net2)"
    and "truthy weather"
  shows "fst (submit eng render net input) =
           (case current_display eng cityData weather of
              Inl err \<Rightarrow> ErrorShown (user_message err)
            | Inr shown \<Rightarrow> WeatherShown shown (fst (forecast_step eng render net2 cityData)))"
  using assms
  by (simp add: submit_def Let_def split: sum.splits prod.splits)

lemma forecast_step_raised:
  assumes "fst (get5DayForecast eng net (lat cityData) (lon cityData)) = Inl e"
  shows "fst (forecast_step eng render net cityData) = ForecastRaised e"
proof -
  obtain net' where "get5DayForecast eng net (lat cityData) (lon cityData) = (Inl e, net')"
    using assms by (cases "get5DayForecast eng net (lat cityData) (lon cityData)") simp
  then show ?thesis
    by (simp add: forecast_step_def)
qed

lemma forecast_step_absent:
  assumes "fst (get5DayForecast eng net (lat cityData) (lon cityData)) = Inr JNull"
  shows "fst (forecast_step eng render net cityData) = ForecastEmpty"
proof -
  obtain net' where "get5DayForecast eng net (lat cityData) (lon cityData) = (Inr JNull, net')"
    using assms by (cases "get5DayForecast eng net (lat cityData) (lon cityData)") simp
  then show ?thesis
    by (simp add: forecast_step_def truthy_def)
qed

lemma forecast_step_raised_pair:
  "get5DayForecast eng net (lat cityData) (lon cityData) = (Inl e, net') \<Longrightarrow>
     forecast_step eng render net cityData = (ForecastRaised e, net')"
  by (simp add: forecast_step_def)

lemma forecast_step_rows:
  assumes "get5DayForecast eng net (lat cityData) (lon cityData) = (Inr daily, net')"
    and "truthy daily"
    and "member_value daily (ascii ''time'') = JArr (t # ts)"
    and "render daily = Inr p"
  shows "forecast_step eng render net cityData = (ForecastRows p, net')"
proof -
  have "daily \<noteq> JUndefined \<and> daily \<noteq> JNull"
    using assms(2) by (auto simp: truthy_def)
  then show ?thesis
    using assms by (simp add: forecast_step_def get_member_def)
qed

lemma getCityCoordinates_answered:
  assumes "\<not> list_all js_whitespace cityName"
    and "encodeURIComponent eng cityName = Inr encoded"
    and "fetch net (geocoding_url encoded) = (Response status (Inr data), net')"
    and "ok status"
  shows "getCityCoordinates eng net cityName = (read_coordinates eng data, net')"
  using assms blank_iff [of cityName] by (simp add: getCityCoordinates_def)

lemma getWeatherData_answered:
  assumes "weather_url eng latitude longitude = Inr url"
    and "fetch net url = (Response status (Inr data), net')"
    and "ok status"
    and "data \<noteq> JNull" and "data \<noteq> JUndefined"
  shows "getWeatherData eng net latitude longitude =
           (Inr (if truthy (member_value data (ascii ''current_weather''))
                 then member_value data (ascii ''current_weather'') else JNull), net')"
  using assms by (simp add: getWeatherData_def get_member_def and_then_def)

lemma get5DayForecast_answered:
  assumes "forecast_window eng = Inr (startDate, endDate)"
    and "forecast_url eng latitude longitude startDate endDate = Inr url"
    and "fetch net url = (Response status (Inr data), net')"
    and "ok status"
    and "data \<noteq> JNull" and "data \<noteq> JUndefined"
  shows "get5DayForecast eng net latitude longitude =
           (Inr (if truthy (member_value data (ascii ''daily''))
                 then member_value data (ascii ''daily'') else JNull), net')"
  using assms by (simp add: get5DayForecast_def get_member_def and_then_def)

lemma get5DayForecast_refused:
  assumes "forecast_window eng = Inr (startDate, endDate)"
    and "forecast_url eng latitude longitude startDate endDate = Inr url"
    and "fetch net url = (Response status body, net')"
    and "\<not> ok status"
  shows "get5DayForecast eng net latitude longitude = (Inl forecast_failed, net')"
  using assms by (simp add: get5DayForecast_def)

lemma forecast_url_numbers:
  "\<exists>url. forecast_url eng (JNum x) (JNum y) startDate endDate = Inr url"
  by (simp add: forecast_url_def and_then_def)

lemma submit_shown:
  assumes "trim input \<noteq> []"
    and "getCityCoordinates eng net (trim input) = (Inr cityData, net1)"
    and "getWeatherData eng net1 (lat cityData) (lon cityData) = (Inr weather, net2)"
    and "truthy weather"
    and "current_display eng cityData weather = Inr shown"
    and "forecast_step eng render net2 cityData = (view, net3)"
  shows "submit eng render net input = (WeatherShown shown view, net3)"
  using assms by (simp add: submit_def Let_def)

lemma forecast_step_failed:
  assumes "forecast_window eng = Inr (startDate, endDate)"
    and "forecast_url eng (lat cityData) (lon cityData) startDate endDate = Inr url"
  shows "(fst (fetch net url) = Rejected e \<longrightarrow>
            fst (forecast_step eng render net cityData) = ForecastRaised e)
         \<and> (fst (fetch net url) = Response status body \<and> \<not> ok status \<longrightarrow>
              fst (forecast_step eng render net cityData) = ForecastRaised forecast_failed)
         \<and> (fst (fetch net url) = Response status (Inr data) \<and> ok status
              \<and> data \<noteq> JNull \<and> data \<noteq> JUndefined
              \<and> member_value data (ascii ''daily'') = JUndefined \<longrightarrow>
              fst (forecast_step eng render net cityData) = ForecastEmpty)"
proof -
  have forecast: "fst (get5DayForecast eng net (lat cityData) (lon cityData)) =
      (case fst (fetch net url) of
        Rejected e \<Rightarrow> Inl e
      | Response status body \<Rightarrow>
          if \<not> ok status then Inl forecast_failed
          else (case body of
                  Inl e \<Rightarrow> Inl e
                | Inr data \<Rightarrow>
                    and_then (get_member eng data (ascii ''daily''))
                      (\<lambda>daily. Inr (if truthy daily then daily else JNull))))"
    by (simp add: get5DayForecast_request [OF assms])
  have rejected: "fst (fetch net url) = Rejected e \<longrightarrow>
      fst (forecast_step eng render net cityData) = ForecastRaised e"
    using forecast by (simp add: forecast_step_raised)
  have failed: "fst (fetch net url) = Response status body \<and> \<not> ok status \<longrightarrow>
      fst (forecast_step eng render net cityData) = ForecastRaised forecast_failed"
    using forecast by (simp add: forecast_step_raised)
  have absent: "fst (fetch net url) = Response status (Inr data) \<and> ok status
      \<and> data \<noteq> JNull \<and> data \<noteq> JUndefined
      \<and> member_value data (ascii ''daily'') = JUndefined \<longrightarrow>
      fst (forecast_step eng render net cityData) = ForecastEmpty"
    using forecast
    by (simp add: forecast_step_absent get_member_def and_then_def truthy_def)
  show ?thesis
    by (intro conjI rejected failed absent)
qed

text \<open>
  In a query whose coordinate resolution and weather fetch succeed and whose current
  values are computed, a forecast fetch that raises leaves the page with those values
  shown, no error message, and the forecast container as it was before the query.
\<close>

lemma failed_forecast_on_page:
  assumes "trim input \<noteq> []"
    and "getCityCoordinates eng net (trim input) = (Inr cityData, net1)"
    and "getWeatherData eng net1 (lat cityData) (lon cityData) = (Inr weather, net2)"
    and "truthy weather"
    and "current_display eng cityData weather = Inr shown"
    and "fst (get5DayForecast eng net2 (lat cityData) (lon cityData)) = Inl e"
  shows "fst (submit_on_page eng render (pg, net) input) =
           \<lparr>weather_info = Some shown, forecast5 = forecast5 pg, error_box = None\<rparr>"
proof -
  have "fst (submit eng render net input) = WeatherShown shown (ForecastRaised e)"
    using assms by (simp add: submit_after_weather forecast_step_raised)
  then show ?thesis
    by (cases "submit eng render net input")
      (simp add: submit_on_page_def page_after_def forecast5_after_def)
qed

section \<open>The sample run\<close>

lemma fetch_answering:
  assumes "length qs < length rs"
  shows "fetch ((answering rs)\<lparr>requests := qs\<rparr>) url =
           (rs ! length qs, (answering rs)\<lparr>requests := qs @ [url]\<rparr>)"
  using assms by (simp add: fetch_def answering_def)

lemma answering_requests: "(answering rs)\<lparr>requests := []\<rparr> = answering rs"
  by (simp add: answering_def)

lemma sample_trim: "trim (ascii ''Lisboa'') = ascii ''Lisboa''"
  by (simp add: trim_def ascii_def js_whitespace_def)

lemma first_trim:
  "trim (ascii ''S'' @ [0xE3] @ ascii ''o Paulo'') = ascii ''S'' @ [0xE3] @ ascii ''o Paulo''"
  by (simp add: trim_def ascii_def js_whitespace_def)

lemma first_name_not_blank:
  "\<not> list_all js_whitespace (ascii ''S'' @ [0xE3] @ ascii ''o Paulo'')"
  by (simp add: ascii_def js_whitespace_def)

lemma first_name_encoded:
  "encodeURIComponent sample_engine (ascii ''S'' @ [0xE3] @ ascii ''o Paulo'') =
     Inr (ascii ''S%C3%A3o%20Paulo'')"
  by code_simp

lemma sample_window:
  "forecast_window sample_engine = Inr (ascii ''2025-11-11'', ascii ''2025-11-15'')"
  by code_simp

lemma sample_coordinates:
  "read_coordinates sample_engine sample_city =
     Inr \<lparr>lat = JNum (- 2355 / 100), lon = JNum (- 4663 / 100),
          name = JStr (ascii ''S'' @ [0xE3] @ ascii ''o Paulo''),
          country = JStr (ascii ''Brazil'')\<rparr>"
  by code_simp

lemma second_coordinates:
  "read_coordinates sample_engine second_city =
     Inr \<lparr>lat = JNum (3872 / 100), lon = JNum (- 914 / 100),
          name = JStr (ascii ''Lisboa''), country = JStr (ascii ''Portugal'')\<rparr>"
  by code_simp

lemma sample_display:
  "current_display sample_engine
     \<lparr>lat = JNum (- 2355 / 100), lon = JNum (- 4663 / 100),
      name = JStr (ascii ''S'' @ [0xE3] @ ascii ''o Paulo''),
      country = JStr (ascii ''Brazil'')\<rparr>
     (JObj [(ascii ''temperature'', JNum (254 / 10)), (ascii ''weathercode'', JNum 63),
            (ascii ''time'', JStr (ascii ''2025-11-10T15:00''))]) =
   Inr \<lparr>city_text = ascii ''S'' @ [0xE3] @ ascii ''o Paulo, Brazil'',
        temperature_text = ascii ''25'' @ [0xB0] @ ascii ''C'',
        description_text = ascii ''Chuva moderada'',
        formatted_time = ascii ''10/11/2025 15:00'',
        icon_class = ascii ''wi-rain''\<rparr>"
  by code_simp

lemma second_display:
  "current_display sample_engine
     \<lparr>lat = JNum (3872 / 100), lon = JNum (- 914 / 100),
      name = JStr (ascii ''Lisboa''), country = JStr (ascii ''Portugal'')\<rparr>
     (JObj [(ascii ''temperature'', JNum (185 / 10)), (ascii ''weathercode'', JNum 2),
            (ascii ''time'', JStr (ascii ''2025-11-11T01:00''))]) =
   Inr \<lparr>city_text = ascii ''Lisboa, Portugal'',
        temperature_text = ascii ''19'' @ [0xB0] @ ascii ''C'',
        description_text = ascii ''Parcialmente nublado'',
        formatted_time = ascii ''11/11/2025 01:00'',
        icon_class = ascii ''wi-day-cloudy''\<rparr>"
  by code_simp

text \<open>
  The query for Sao Paulo, on a network that gives the three sample answers next: the
  page shows the current values and the forecast rows, and three requests were sent.
\<close>

lemma first_query:
  assumes "length qs + 2 < length rs"
    and "rs ! length qs = Response 200 (Inr sample_city)"
    and "rs ! (length qs + 1) = Response 200 (Inr sample_weather)"
    and "rs ! (length qs + 2) = Response 200 (Inr sample_forecast)"
  shows "\<exists>qs'. length qs' = length qs + 3
           \<and> submit sample_engine (\<lambda>daily. Inr daily) ((answering rs)\<lparr>requests := qs\<rparr>)
                 (ascii ''S'' @ [0xE3] @ ascii ''o Paulo'') =
               (WeatherShown
                  \<lparr>city_text = ascii ''S'' @ [0xE3] @ ascii ''o Paulo, Brazil'',
                   temperature_text = ascii ''25'' @ [0xB0] @ ascii ''C'',
                   description_text = ascii ''Chuva moderada'',
                   formatted_time = ascii ''10/11/2025 15:00'',
                   icon_class = ascii ''wi-rain''\<rparr>
                  (ForecastRows sample_daily),
                (answering rs)\<lparr>requests := qs'\<rparr>)"
proof -
  let ?input = "ascii ''S'' @ [0xE3] @ ascii ''o Paulo''"
  let ?city = "\<lparr>lat = JNum (- 2355 / 100), lon = JNum (- 4663 / 100),
                name = JStr (ascii ''S'' @ [0xE3] @ ascii ''o Paulo''),
                country = JStr (ascii ''Brazil'')\<rparr>"
  let ?weather = "JObj [(ascii ''temperature'', JNum (254 / 10)),
                        (ascii ''weathercode'', JNum 63),
                        (ascii ''time'', JStr (ascii ''2025-11-10T15:00''))]"
  let ?g = "geocoding_url (ascii ''S%C3%A3o%20Paulo'')"
  obtain w where w: "weather_url sample_engine (JNum (- 2355 / 100)) (JNum (- 4663 / 100)) = Inr w"
    using weather_url_numbers by blast
  obtain f where f: "forecast_url sample_engine (JNum (- 2355 / 100)) (JNum (- 4663 / 100))
      (ascii ''2025-11-11'') (ascii ''2025-11-15'') = Inr f"
    using forecast_url_numbers by blast
  let ?n0 = "(answering rs)\<lparr>requests := qs\<rparr>"
  let ?n1 = "(answering rs)\<lparr>requests := qs @ [?g]\<rparr>"
  let ?n2 = "(answering rs)\<lparr>requests := (qs @ [?g]) @ [w]\<rparr>"
  let ?n3 = "(answering rs)\<lparr>requests := ((qs @ [?g]) @ [w]) @ [f]\<rparr>"
  have ok: "ok 200"
    by (simp add: ok_def)
  have input: "trim ?input \<noteq> []"
    unfolding first_trim by (simp add: ascii_def)
  have a0: "fetch ?n0 ?g = (Response 200 (Inr sample_city), ?n1)"
    using assms(1,2) by (simp add: fetch_answering)
  have a1: "fetch ?n1 w = (Response 200 (Inr sample_weather), ?n2)"
    using assms(1,3) by (simp add: fetch_answering)
  have a2: "fetch ?n2 f = (Response 200 (Inr sample_forecast), ?n3)"
    using assms(1,4) by (simp add: fetch_answering)
  have city: "getCityCoordinates sample_engine ?n0 (trim ?input) = (Inr ?city, ?n1)"
    unfolding first_trim
    using getCityCoordinates_answered [OF first_name_not_blank first_name_encoded a0 ok]
    by (simp add: sample_coordinates)
  have body: "sample_weather \<noteq> JNull" "sample_weather \<noteq> JUndefined"
    by (simp_all add: sample_weather_def)
  have read: "member_value sample_weather (ascii ''current_weather'') = ?weather"
    by (simp add: sample_weather_def member_value_def)
  have truthy: "truthy ?weather"
    by (simp add: truthy_def)
  have weather: "getWeatherData sample_engine ?n1 (lat ?city) (lon ?city) = (Inr ?weather, ?n2)"
    using getWeatherData_answered [OF _ a1 ok body, of sample_engine "lat ?city" "lon ?city"] w
      read truthy
    by simp
  have days: "sample_forecast \<noteq> JNull" "sample_forecast \<noteq> JUndefined"
    by (simp_all add: sample_forecast_def)
  have daily: "member_value sample_forecast (ascii ''daily'') = sample_daily"
    by (simp add: sample_forecast_def member_value_def)
  have rows: "truthy sample_daily"
    by (simp add: sample_daily_def truthy_def)
  have times: "member_value sample_daily (ascii ''time'') =
      JArr (JStr (ascii ''2025-11-11'') # [JStr (ascii ''2025-11-12'')])"
    by (simp add: sample_daily_def member_value_def)
  have forecast: "get5DayForecast sample_engine ?n2 (lat ?city) (lon ?city) =
      (Inr sample_daily, ?n3)"
    using get5DayForecast_answered [OF sample_window _ a2 ok days,
        of "lat ?city" "lon ?city"] f daily rows
    by simp
  have step: "forecast_step sample_engine (\<lambda>daily. Inr daily) ?n2 ?city =
      (ForecastRows sample_daily, ?n3)"
    using forecast rows times by (rule forecast_step_rows) simp
  have "submit sample_engine (\<lambda>daily. Inr daily) ?n0 ?input =
      (WeatherShown
         \<lparr>city_text = ascii ''S'' @ [0xE3] @ ascii ''o Paulo, Brazil'',
          temperature_text = ascii ''25'' @ [0xB0] @ ascii ''C'',
          description_text = ascii ''Chuva moderada'',
          formatted_time = ascii ''10/11/2025 15:00'',
          icon_class = ascii ''wi-rain''\<rparr>
         (ForecastRows sample_daily), ?n3)"
    using input city weather truthy sample_display step by (rule submit_shown)
  moreover have "length (((qs @ [?g]) @ [w]) @ [f]) = length qs + 3"
    by simp
  ultimately show ?thesis
    by blast
qed

text \<open>
  The query for Lisboa, on a network that answers its forecast request with the status
  500: the current values are shown and the forecast step ends with the caught error.
\<close>

lemma second_query:
  assumes "length qs + 2 < length rs"
    and "rs ! length qs = Response 200 (Inr second_city)"
    and "rs ! (length qs + 1) = Response 200 (Inr second_weather)"
    and "rs ! (length qs + 2) = Response 500 (Inr JNull)"
  shows "\<exists>qs'. length qs' = length qs + 3
           \<and> submit sample_engine (\<lambda>daily. Inr daily) ((answering rs)\<lparr>requests := qs\<rparr>)
                 (ascii ''Lisboa'') =
               (WeatherShown
                  \<lparr>city_text = ascii ''Lisboa, Portugal'',
                   temperature_text = ascii ''19'' @ [0xB0] @ ascii ''C'',
                   description_text = ascii ''Parcialmente nublado'',
                   formatted_time = ascii ''11/11/2025 01:00'',
                   icon_class = ascii ''wi-day-cloudy''\<rparr>
                  (ForecastRaised forecast_failed),
                (answering rs)\<lparr>requests := qs'\<rparr>)"
proof -
  let ?input = "ascii ''Lisboa''"
  let ?city = "\<lparr>lat = JNum (3872 / 100), lon = JNum (- 914 / 100),
                name = JStr (ascii ''Lisboa''), country = JStr (ascii ''Portugal'')\<rparr>"
  let ?weather = "JObj [(ascii ''temperature'', JNum (185 / 10)),
                        (ascii ''weathercode'', JNum 2),
                        (ascii ''time'', JStr (ascii ''2025-11-11T01:00''))]"
  let ?g = "geocoding_url (ascii ''Lisboa'')"
  obtain w where w: "weather_url sample_engine (JNum (3872 / 100)) (JNum (- 914 / 100)) = Inr w"
    using weather_url_numbers by blast
  obtain f where f: "forecast_url sample_engine (JNum (3872 / 100)) (JNum (- 914 / 100))
      (ascii ''2025-11-11'') (ascii ''2025-11-15'') = Inr f"
    using forecast_url_numbers by blast
  let ?n0 = "(answering rs)\<lparr>requests := qs\<rparr>"
  let ?n1 = "(answering rs)\<lparr>requests := qs @ [?g]\<rparr>"
  let ?n2 = "(answering rs)\<lparr>requests := (qs @ [?g]) @ [w]\<rparr>"
  let ?n3 = "(answering rs)\<lparr>requests := ((qs @ [?g]) @ [w]) @ [f]\<rparr>"
  have ok: "ok 200" and bad: "\<not> ok 500"
    by (simp_all add: ok_def)
  have input: "trim ?input \<noteq> []"
    unfolding sample_trim by (simp add: ascii_def)
  have a0: "fetch ?n0 ?g = (Response 200 (Inr second_city), ?n1)"
    using assms(1,2) by (simp add: fetch_answering)
  have a1: "fetch ?n1 w = (Response 200 (Inr second_weather), ?n2)"
    using assms(1,3) by (simp add: fetch_answering)
  have a2: "fetch ?n2 f = (Response 500 (Inr JNull), ?n3)"
    using assms(1,4) by (simp add: fetch_answering)
  have city: "getCityCoordinates sample_engine ?n0 (trim ?input) = (Inr ?city, ?n1)"
    unfolding sample_trim
    using getCityCoordinates_answered [OF sample_name_not_blank sample_name_encoded a0 ok]
    by (simp add: second_coordinates)
  have body: "second_weather \<noteq> JNull" "second_weather \<noteq> JUndefined"
    by (simp_all add: second_weather_def)
  have read: "member_value second_weather (ascii ''current_weather'') = ?weather"
    by (simp add: second_weather_def member_value_def)
  have truthy: "truthy ?weather"
    by (simp add: truthy_def)
  have weather: "getWeatherData sample_engine ?n1 (lat ?city) (lon ?city) = (Inr ?weather, ?n2)"
    using getWeatherData_answered [OF _ a1 ok body, of sample_engine "lat ?city" "lon ?city"] w
      read truthy
    by simp
  have forecast: "get5DayForecast sample_engine ?n2 (lat ?city) (lon ?city) =
      (Inl forecast_failed, ?n3)"
    using get5DayForecast_refused [OF sample_window _ a2 bad, of "lat ?city" "lon ?city"] f
    by simp
  have step: "forecast_step sample_engine (\<lambda>daily. Inr daily) ?n2 ?city =
      (ForecastRaised forecast_failed, ?n3)"
    using forecast by (rule forecast_step_raised_pair)
  have "submit sample_engine (\<lambda>daily. Inr daily) ?n0 ?input =
      (WeatherShown
         \<lparr>city_text = ascii ''Lisboa, Portugal'',
          temperature_text = ascii ''19'' @ [0xB0] @ ascii ''C'',
          description_text = ascii ''Parcialmente nublado'',
          formatted_time = ascii ''11/11/2025 01:00'',
          icon_class = ascii ''wi-day-cloudy''\<rparr>
         (ForecastRaised forecast_failed), ?n3)"
    using input city weather truthy second_display step by (rule submit_shown)
  moreover have "length (((qs @ [?g]) @ [w]) @ [f]) = length qs + 3"
    by simp
  ultimately show ?thesis
    by blast
qed

text \<open>
  Claim C9 holds in its first part: the error of a failing forecast is caught in the
  inner \<open>try\<close> and the values of the current observation are shown. Its last part, that
  the forecast panel is then omitted, fails on a page that has shown a forecast before:
  the handler empties the container \<open>forecast5\<close> only after \<open>await get5DayForecast\<close>
  has returned, so when the forecast fails the container of the previous query stays.
  After a query for Sao Paulo that is answered in full and a query for Lisboa whose
  forecast request is answered with the status 500, the page shows the current weather of
  Lisboa above the forecast rows of Sao Paulo. On a page that has shown no forecast
  before, the same failure leaves no panel.
\<close>

theorem C9_failed_forecast_keeps_previous_panel:
  "fst after_first_query =
     \<lparr>weather_info =
        Some \<lparr>city_text = ascii ''S'' @ [0xE3] @ ascii ''o Paulo, Brazil'',
              temperature_text = ascii ''25'' @ [0xB0] @ ascii ''C'',
              description_text = ascii ''Chuva moderada'',
              formatted_time = ascii ''10/11/2025 15:00'',
              icon_class = ascii ''wi-rain''\<rparr>,
      forecast5 = TitleAndRows sample_daily,
      error_box = None\<rparr>
   \<and> fst (submit sample_engine (\<lambda>daily. Inr daily) (snd after_first_query) (ascii ''Lisboa'')) =
       WeatherShown
         \<lparr>city_text = ascii ''Lisboa, Portugal'',
          temperature_text = ascii ''19'' @ [0xB0] @ ascii ''C'',
          description_text = ascii ''Parcialmente nublado'',
          formatted_time = ascii ''11/11/2025 01:00'',
          icon_class = ascii ''wi-day-cloudy''\<rparr>
         (ForecastRaised
            (JsError Error (ascii ''Erro ao buscar previs'' @ [0xE3] @ ascii ''o de 5 dias'')))
   \<and> fst after_second_query =
       \<lparr>weather_info =
          Some \<lparr>city_text = ascii ''Lisboa, Portugal'',
                temperature_text = ascii ''19'' @ [0xB0] @ ascii ''C'',
                description_text = ascii ''Parcialmente nublado'',
                formatted_time = ascii ''11/11/2025 01:00'',
                icon_class = ascii ''wi-day-cloudy''\<rparr>,
        forecast5 = TitleAndRows sample_daily,
        error_box = None\<rparr>
   \<and> length (requests (snd after_second_query)) = 6
   \<and> fst (submit_on_page sample_engine (\<lambda>daily. Inr daily)
            (first_page,
             answering [Response 200 (Inr second_city), Response 200 (Inr second_weather),
                        Response 500 (Inr JNull)])
            (ascii ''Lisboa'')) =
       \<lparr>weather_info =
          Some \<lparr>city_text = ascii ''Lisboa, Portugal'',
                temperature_text = ascii ''19'' @ [0xB0] @ ascii ''C'',
                description_text = ascii ''Parcialmente nublado'',
                formatted_time = ascii ''11/11/2025 01:00'',
                icon_class = ascii ''wi-day-cloudy''\<rparr>,
        forecast5 = NoPanel,
        error_box = None\<rparr>"
  proof -
  let ?first = "\<lparr>city_text = ascii ''S'' @ [0xE3] @ ascii ''o Paulo, Brazil'',
                 temperature_text = ascii ''25'' @ [0xB0] @ ascii ''C'',
                 description_text = ascii ''Chuva moderada'',
                 formatted_time = ascii ''10/11/2025 15:00'',
                 icon_class = ascii ''wi-rain''\<rparr>"
  let ?second = "\<lparr>city_text = ascii ''Lisboa, Portugal'',
                  temperature_text = ascii ''19'' @ [0xB0] @ ascii ''C'',
                  description_text = ascii ''Parcialmente nublado'',
                  formatted_time = ascii ''11/11/2025 01:00'',
                  icon_class = ascii ''wi-day-cloudy''\<rparr>"
  let ?render = "\<lambda>daily :: jsval. Inr daily :: js_error + jsval"
  let ?alone = "[Response 200 (Inr second_city), Response 200 (Inr second_weather),
                 Response 500 (Inr JNull)]"
  have failed: "forecast_failed =
      JsError Error (ascii ''Erro ao buscar previs'' @ [0xE3] @ ascii ''o de 5 dias'')"
    by (simp add: forecast_failed_def)
  obtain qs1 where qs1: "length qs1 = 3"
    and q1: "submit sample_engine ?render (answering sample_answers)
               (ascii ''S'' @ [0xE3] @ ascii ''o Paulo'') =
             (WeatherShown ?first (ForecastRows sample_daily),
              (answering sample_answers)\<lparr>requests := qs1\<rparr>)"
    using first_query [of "[]" sample_answers]
    by (auto simp: sample_answers_def answering_requests)
  have p1: "after_first_query =
      (\<lparr>weather_info = Some ?first, forecast5 = TitleAndRows sample_daily, error_box = None\<rparr>,
       (answering sample_answers)\<lparr>requests := qs1\<rparr>)"
    using q1
    by (simp add: after_first_query_def submit_on_page_def page_after_def
        forecast5_after_def first_page_def)
  obtain qs2 where qs2: "length qs2 = 6"
    and q2: "submit sample_engine ?render ((answering sample_answers)\<lparr>requests := qs1\<rparr>)
               (ascii ''Lisboa'') =
             (WeatherShown ?second (ForecastRaised forecast_failed),
              (answering sample_answers)\<lparr>requests := qs2\<rparr>)"
    using second_query [of qs1 sample_answers] qs1
    by (auto simp: sample_answers_def)
  have p2: "after_second_query =
      (\<lparr>weather_info = Some ?second, forecast5 = TitleAndRows sample_daily, error_box = None\<rparr>,
       (answering sample_answers)\<lparr>requests := qs2\<rparr>)"
    using q2
    by (simp add: after_second_query_def p1 submit_on_page_def page_after_def
        forecast5_after_def showSearchForm_def)
  obtain qs3 where
    q3: "submit sample_engine ?render (answering ?alone) (ascii ''Lisboa'') =
           (WeatherShown ?second (ForecastRaised forecast_failed),
            (answering ?alone)\<lparr>requests := qs3\<rparr>)"
    using second_query [of "[]" ?alone]
    by (auto simp: answering_requests)
  have p3: "fst (submit_on_page sample_engine ?render (first_page, answering ?alone)
      (ascii ''Lisboa'')) =
      \<lparr>weather_info = Some ?second, forecast5 = NoPanel, error_box = None\<rparr>"
    using q3
    by (simp add: submit_on_page_def page_after_def forecast5_after_def first_page_def)
  have c1: "fst after_first_query =
      \<lparr>weather_info = Some ?first, forecast5 = TitleAndRows sample_daily, error_box = None\<rparr>"
    by (simp add: p1)
  have c2: "fst (submit sample_engine ?render (snd after_first_query) (ascii ''Lisboa'')) =
      WeatherShown ?second
        (ForecastRaised
           (JsError Error (ascii ''Erro ao buscar previs'' @ [0xE3] @ ascii ''o de 5 dias'')))"
    using failed q2 by (simp add: p1)
  have c3: "fst after_second_query =
      \<lparr>weather_info = Some ?second, forecast5 = TitleAndRows sample_daily, error_box = None\<rparr>"
    by (simp add: p2)
  have c4: "length (requests (snd after_second_query)) = 6"
    by (simp add: p2 qs2)
  show ?thesis
    by (intro conjI c1 c2 c3 c4 p3)
qed
end
